theory Spec2Isabelle
  imports Main
begin

section \<open>The vehicle checklist API of api/server.py\<close>

text \<open>
  The program is a set of request handlers over one MongoDB collection,
  \<^verbatim>\<open>db.checklists\<close>. Each handler is embedded as a function that takes the
  collection and returns the handler's outcome together with the collection
  afterwards. A raised exception is the left summand of the outcome.

  What the handlers obtain from outside the file is passed in as arguments, one
  argument for each call the handler can make, in the order of the calls:
  \<^item> \<^verbatim>\<open>datetime.utcnow()\<close>: a reading of the wall clock. A \<open>datetime\<close> is a
    number of microseconds, the resolution of Python's \<^verbatim>\<open>datetime\<close>.
  \<^item> \<^verbatim>\<open>uuid.uuid4()\<close>: the identifier drawn for a new object.

  The collection is the list of its documents in insertion order. A document
  is always the \<^verbatim>\<open>dict()\<close> of a validated \<^verbatim>\<open>VehicleChecklist\<close> (plus the
  store's own \<^verbatim>\<open>_id\<close>, which the model drops on reading), so a document is a
  \<open>VehicleChecklist\<close>. The store holds a document as BSON, in which a date is
  a whole number of milliseconds: a \<open>datetime\<close> that goes through the store
  loses its microseconds.
  A handler runs from its first store call to its last without another
  handler in between.
\<close>

subsection \<open>Models (pydantic classes)\<close>

type_synonym datetime = nat

text \<open>
  A field declared \<^verbatim>\<open>Optional[str] = ""\<close> accepts \<^verbatim>\<open>None\<close>, so it is a
  \<open>string option\<close>. The fields \<^verbatim>\<open>make\<close>, \<^verbatim>\<open>length\<close>, \<^verbatim>\<open>power\<close>, \<^verbatim>\<open>id\<close>,
  \<^verbatim>\<open>text\<close> and \<^verbatim>\<open>description\<close> carry the name of their class as a suffix, as
  do the fields of the create request (\<open>_new\<close>) and of the update request (\<open>_upd\<close>).
\<close>

record VehicleInfo =
  make_vehicle :: string
  model :: string
  series :: "string option"
  year :: string
  bodyType :: "string option"
  doors :: "string option"
  assembly :: "string option"
  licensing :: "string option"
  purchaseDate :: "string option"
  vin :: "string option"
  buildDate :: "string option"
  trimCode :: "string option"
  optionCode :: "string option"
  odometer :: "string option"
  paintColor :: "string option"
  engine :: "string option"
  transmission :: "string option"
  drive :: "string option"
  layout :: "string option"
  rimSize :: "string option"
  tyreSize :: "string option"
  weight :: "string option"
  wheelbase :: "string option"
  length_vehicle :: "string option"
  height :: "string option"
  width :: "string option"

record EngineInfo =
  engineNumber :: "string option"
  engineCode :: "string option"
  description_engine :: "string option"
  bore :: "string option"
  stroke :: "string option"
  compressionRatio :: "string option"
  power_engine :: "string option"
  torque :: "string option"

record ChecklistItem =
  id_item :: string
  text_item :: string
  completed :: bool
  completed_at :: "datetime option"

record Photo =
  id_photo :: string
  base64_data :: string
  description_photo :: "string option"
  timestamp :: datetime

record VehicleChecklist =
  id_checklist :: string
  title :: string
  vehicle_info :: VehicleInfo
  engine_info :: EngineInfo
  tasks :: "ChecklistItem list"
  parts_to_install :: "ChecklistItem list"
  maintenance :: "ChecklistItem list"
  research_items :: "ChecklistItem list"
  photos :: "Photo list"
  created_at :: datetime
  updated_at :: datetime
  is_template :: bool

record VehicleChecklistCreate =
  title_new :: string
  vehicle_info_new :: VehicleInfo
  engine_info_new :: EngineInfo
  is_template_new :: "bool option"

record VehicleChecklistUpdate =
  title_upd :: "string option"
  vehicle_info_upd :: "VehicleInfo option"
  engine_info_upd :: "EngineInfo option"
  tasks_upd :: "ChecklistItem list option"
  parts_to_install_upd :: "ChecklistItem list option"
  maintenance_upd :: "ChecklistItem list option"
  research_items_upd :: "ChecklistItem list option"
  photos_upd :: "Photo list option"

subsection \<open>Exceptions\<close>

text \<open>
  \<open>HTTPException status detail\<close> is the exception the handlers raise
  themselves. \<open>ValidationError\<close> is pydantic's, raised when a model is built
  from a value its field type refuses; \<open>TypeError\<close> is Python's, raised by
  \<^verbatim>\<open>VehicleChecklist(**None)\<close>.
\<close>

datatype exn = HTTPException nat string | ValidationError | TypeError

definition checklist_not_found :: exn where
  "checklist_not_found = HTTPException 404 ''Checklist not found''"

definition item_not_found :: exn where
  "item_not_found = HTTPException 404 ''Item not found''"

definition valid_sections :: "string list" where
  "valid_sections = [''tasks'', ''parts_to_install'', ''maintenance'', ''research_items'']"

definition invalid_section :: exn where
  "invalid_section = HTTPException 400
     ''Invalid section. Must be one of: ['tasks', 'parts_to_install', 'maintenance', 'research_items']''"

definition failed_to_create :: exn where
  "failed_to_create = HTTPException 400 ''Failed to create checklist''"

definition failed_to_update :: exn where
  "failed_to_update = HTTPException 400 ''Failed to update checklist''"

definition failed_to_add_item :: exn where
  "failed_to_add_item = HTTPException 400 ''Failed to add item''"

definition failed_to_update_item :: exn where
  "failed_to_update_item = HTTPException 400 ''Failed to update item''"

definition failed_to_add_photo :: exn where
  "failed_to_add_photo = HTTPException 400 ''Failed to add photo''"

subsection \<open>Documents as the store holds them\<close>

text \<open>
  The BSON date of a \<open>datetime\<close>: the microseconds below the millisecond are
  cut off.
\<close>

definition millis :: "datetime \<Rightarrow> datetime" where
  "millis t = t - t mod 1000"

text \<open>
  The BSON form of an item, of a photo and of a checklist: every date in it
  is a BSON date, and nothing else changes.
\<close>

definition bson_item :: "ChecklistItem \<Rightarrow> ChecklistItem" where
  "bson_item item = item\<lparr>completed_at := map_option millis (completed_at item)\<rparr>"

definition bson_photo :: "Photo \<Rightarrow> Photo" where
  "bson_photo photo = photo\<lparr>timestamp := millis (timestamp photo)\<rparr>"

definition bson :: "VehicleChecklist \<Rightarrow> VehicleChecklist" where
  "bson d =
     d\<lparr>tasks := map bson_item (tasks d),
       parts_to_install := map bson_item (parts_to_install d),
       maintenance := map bson_item (maintenance d),
       research_items := map bson_item (research_items d),
       photos := map bson_photo (photos d),
       created_at := millis (created_at d),
       updated_at := millis (updated_at d)\<rparr>"

subsection \<open>The document collection\<close>

text \<open>
  Every operation of the store takes a document of the collection in its
  BSON form and leaves what it writes in BSON form. On a collection that
  \<open>insert_one\<close> and \<open>update_one\<close> have built, \<open>bson\<close> changes nothing when
  a document is read.
\<close>

type_synonym collection = "VehicleChecklist list"

text \<open>\<^verbatim>\<open>find_one({"id": checklist_id})\<close>: the first document with that id, if any.\<close>

fun find_one :: "string \<Rightarrow> collection \<Rightarrow> VehicleChecklist option" where
  "find_one checklist_id [] = None"
| "find_one checklist_id (d # ds) =
     (if id_checklist d = checklist_id then Some (bson d) else find_one checklist_id ds)"

text \<open>
  \<^verbatim>\<open>update_one({"id": checklist_id}, update)\<close>: the update is applied to the
  first document with that id, and the values it writes are held as BSON.
  The second component is \<^verbatim>\<open>modified_count\<close>: 1 when the stored document
  differs after the update, 0 when no document matched or the update left the
  stored document as it was.
\<close>

fun update_one ::
  "string \<Rightarrow> (VehicleChecklist \<Rightarrow> VehicleChecklist) \<Rightarrow> collection \<Rightarrow> collection \<times> nat" where
  "update_one checklist_id f [] = ([], 0)"
| "update_one checklist_id f (d # ds) =
     (if id_checklist d = checklist_id
      then (if bson (f (bson d)) = bson d then (d # ds, 0) else (bson (f (bson d)) # ds, 1))
      else (case update_one checklist_id f ds of (ds', n) \<Rightarrow> (d # ds', n)))"

text \<open>
  \<^verbatim>\<open>insert_one(doc)\<close>: the document goes to the end of the collection, as
  BSON. The second component is the truth value of \<^verbatim>\<open>result.inserted_id\<close>,
  an object identifier, which is never falsy.
\<close>

definition insert_one :: "VehicleChecklist \<Rightarrow> collection \<Rightarrow> collection \<times> bool" where
  "insert_one doc db = (db @ [bson doc], True)"

text \<open>\<^verbatim>\<open>delete_one({"id": checklist_id})\<close>, with \<^verbatim>\<open>deleted_count\<close>.\<close>

fun delete_one :: "string \<Rightarrow> collection \<Rightarrow> collection \<times> nat" where
  "delete_one checklist_id [] = ([], 0)"
| "delete_one checklist_id (d # ds) =
     (if id_checklist d = checklist_id then (ds, 1)
      else (case delete_one checklist_id ds of (ds', n) \<Rightarrow> (d # ds', n)))"

subsection \<open>Update operators\<close>

text \<open>
  One entry of a \<^verbatim>\<open>$set\<close> dictionary: the key and its value. \<open>Items section v\<close>
  is the entry whose key is the string \<open>section\<close>.
\<close>

datatype field_value =
    Title string
  | Vehicle_info VehicleInfo
  | Engine_info EngineInfo
  | Items string "ChecklistItem list"
  | Photos "Photo list"
  | Updated_at datetime

text \<open>
  \<^verbatim>\<open>checklist.get(section, [])\<close> on a document. The four lists are the keys
  a document has whose value is a list of items.
\<close>

definition get_section :: "string \<Rightarrow> VehicleChecklist \<Rightarrow> ChecklistItem list" where
  "get_section section d =
     (if section = ''tasks'' then tasks d
      else if section = ''parts_to_install'' then parts_to_install d
      else if section = ''maintenance'' then maintenance d
      else if section = ''research_items'' then research_items d
      else [])"

text \<open>
  Writing the key \<open>section\<close>. A key outside the four would add a field that
  \<open>VehicleChecklist\<close> does not have; both handlers that pass a section name
  refuse such a name before they reach the store.
\<close>

definition set_section ::
  "string \<Rightarrow> ChecklistItem list \<Rightarrow> VehicleChecklist \<Rightarrow> VehicleChecklist" where
  "set_section section v d =
     (if section = ''tasks'' then d\<lparr>tasks := v\<rparr>
      else if section = ''parts_to_install'' then d\<lparr>parts_to_install := v\<rparr>
      else if section = ''maintenance'' then d\<lparr>maintenance := v\<rparr>
      else if section = ''research_items'' then d\<lparr>research_items := v\<rparr>
      else d)"

fun set_field :: "field_value \<Rightarrow> VehicleChecklist \<Rightarrow> VehicleChecklist" where
  "set_field (Title v) d = d\<lparr>title := v\<rparr>"
| "set_field (Vehicle_info v) d = d\<lparr>vehicle_info := v\<rparr>"
| "set_field (Engine_info v) d = d\<lparr>engine_info := v\<rparr>"
| "set_field (Items section v) d = set_section section v d"
| "set_field (Photos v) d = d\<lparr>photos := v\<rparr>"
| "set_field (Updated_at v) d = d\<lparr>updated_at := v\<rparr>"

text \<open>\<^verbatim>\<open>{"$set": entries}\<close>.\<close>

definition dollar_set :: "field_value list \<Rightarrow> VehicleChecklist \<Rightarrow> VehicleChecklist" where
  "dollar_set entries d = fold set_field entries d"

text \<open>\<^verbatim>\<open>{"$push": {section: item}}\<close> and \<^verbatim>\<open>{"$push": {"photos": photo}}\<close>.\<close>

definition push_item :: "string \<Rightarrow> ChecklistItem \<Rightarrow> VehicleChecklist \<Rightarrow> VehicleChecklist" where
  "push_item section item d = set_section section (get_section section d @ [item]) d"

definition push_photo :: "Photo \<Rightarrow> VehicleChecklist \<Rightarrow> VehicleChecklist" where
  "push_photo photo d = d\<lparr>photos := photos d @ [photo]\<rparr>"

subsection \<open>Handlers\<close>

type_synonym 'a outcome = "(exn + 'a) \<times> collection"

text \<open>
  \<^verbatim>\<open>create_checklist\<close>. \<^verbatim>\<open>VehicleChecklist(**checklist_dict)\<close> refuses
  \<^verbatim>\<open>is_template=None\<close>, which the request type admits. The two clock readings
  are those of the default factories of \<^verbatim>\<open>created_at\<close> and \<^verbatim>\<open>updated_at\<close>.
  The handler returns the object it built, not what the store holds.
\<close>

definition create_checklist ::
  "string \<Rightarrow> datetime \<Rightarrow> datetime \<Rightarrow> VehicleChecklistCreate \<Rightarrow> collection
     \<Rightarrow> VehicleChecklist outcome" where
  "create_checklist uuid4 utcnow1 utcnow2 checklist_data db =
     (case is_template_new checklist_data of
        None \<Rightarrow> (Inl ValidationError, db)
      | Some t \<Rightarrow>
          (let checklist =
                 \<lparr>id_checklist = uuid4,
                  title = title_new checklist_data,
                  vehicle_info = vehicle_info_new checklist_data,
                  engine_info = engine_info_new checklist_data,
                  tasks = [], parts_to_install = [], maintenance = [], research_items = [],
                  photos = [],
                  created_at = utcnow1, updated_at = utcnow2,
                  is_template = t\<rparr>
           in case insert_one checklist db of
                (db', inserted_id) \<Rightarrow>
                  if inserted_id then (Inr checklist, db')
                  else (Inl failed_to_create, db')))"

text \<open>\<^verbatim>\<open>get_checklists\<close>: \<^verbatim>\<open>find(query).to_list(1000)\<close>.\<close>

definition get_checklists :: "bool option \<Rightarrow> collection \<Rightarrow> VehicleChecklist list outcome" where
  "get_checklists is_template_query db =
     (Inr (take 1000
        (case is_template_query of
           None \<Rightarrow> map bson db
         | Some t \<Rightarrow> filter (\<lambda>d. is_template d = t) (map bson db))), db)"

definition get_checklist :: "string \<Rightarrow> collection \<Rightarrow> VehicleChecklist outcome" where
  "get_checklist checklist_id db =
     (case find_one checklist_id db of
        None \<Rightarrow> (Inl checklist_not_found, db)
      | Some checklist \<Rightarrow> (Inr checklist, db))"

text \<open>
  The items of \<^verbatim>\<open>update_data.dict()\<close> in field order, a \<^verbatim>\<open>None\<close> value as
  \<open>None\<close>; then the comprehension that keeps the values that are not
  \<^verbatim>\<open>None\<close>, and the assignment of \<^verbatim>\<open>updated_at\<close>.
\<close>

definition dict_update :: "VehicleChecklistUpdate \<Rightarrow> field_value option list" where
  "dict_update update_data =
     [map_option Title (title_upd update_data),
      map_option Vehicle_info (vehicle_info_upd update_data),
      map_option Engine_info (engine_info_upd update_data),
      map_option (Items ''tasks'') (tasks_upd update_data),
      map_option (Items ''parts_to_install'') (parts_to_install_upd update_data),
      map_option (Items ''maintenance'') (maintenance_upd update_data),
      map_option (Items ''research_items'') (research_items_upd update_data),
      map_option Photos (photos_upd update_data)]"

definition update_dict :: "VehicleChecklistUpdate \<Rightarrow> datetime \<Rightarrow> field_value list" where
  "update_dict update_data utcnow =
     List.map_filter (\<lambda>v. v) (dict_update update_data) @ [Updated_at utcnow]"

definition update_checklist ::
  "datetime \<Rightarrow> string \<Rightarrow> VehicleChecklistUpdate \<Rightarrow> collection \<Rightarrow> VehicleChecklist outcome" where
  "update_checklist utcnow checklist_id update_data db =
     (case find_one checklist_id db of
        None \<Rightarrow> (Inl checklist_not_found, db)
      | Some existing \<Rightarrow>
          (case update_one checklist_id (dollar_set (update_dict update_data utcnow)) db of
             (db', modified_count) \<Rightarrow>
               if modified_count = 0 then (Inl failed_to_update, db')
               else (case find_one checklist_id db' of
                       None \<Rightarrow> (Inl TypeError, db')
                     | Some updated_checklist \<Rightarrow> (Inr updated_checklist, db'))))"

definition delete_checklist :: "string \<Rightarrow> collection \<Rightarrow> string outcome" where
  "delete_checklist checklist_id db =
     (case delete_one checklist_id db of
        (db', deleted_count) \<Rightarrow>
          if deleted_count = 0 then (Inl checklist_not_found, db')
          else (Inr ''Checklist deleted successfully'', db'))"

definition add_checklist_item ::
  "string \<Rightarrow> datetime \<Rightarrow> string \<Rightarrow> string \<Rightarrow> string \<Rightarrow> collection
     \<Rightarrow> (string \<times> ChecklistItem) outcome" where
  "add_checklist_item uuid4 utcnow checklist_id section item_text db =
     (if section \<notin> set valid_sections then (Inl invalid_section, db)
      else case find_one checklist_id db of
        None \<Rightarrow> (Inl checklist_not_found, db)
      | Some existing \<Rightarrow>
          (let new_item =
                 \<lparr>id_item = uuid4, text_item = item_text, completed = False, completed_at = None\<rparr>
           in case update_one checklist_id
                     (\<lambda>d. dollar_set [Updated_at utcnow] (push_item section new_item d)) db of
                (db', modified_count) \<Rightarrow>
                  if modified_count = 0 then (Inl failed_to_add_item, db')
                  else (Inr (''Item added successfully'', new_item), db')))"

text \<open>
  The loop of \<^verbatim>\<open>toggle_checklist_item\<close>: the first item with the id is
  changed in place by the two assignments, the second of which reads the
  flag the first has set, and the loop breaks. The result is the list
  afterwards and \<^verbatim>\<open>item_found\<close>. The clock is read only when the item
  becomes completed.
\<close>

fun toggle_first ::
  "string \<Rightarrow> datetime \<Rightarrow> ChecklistItem list \<Rightarrow> ChecklistItem list \<times> bool" where
  "toggle_first item_id utcnow [] = ([], False)"
| "toggle_first item_id utcnow (item # items) =
     (if id_item item = item_id
      then (let item = item\<lparr>completed := \<not> completed item\<rparr>;
                item = item\<lparr>completed_at := (if completed item then Some utcnow else None)\<rparr>
            in (item # items, True))
      else (case toggle_first item_id utcnow items of
              (items', item_found) \<Rightarrow> (item # items', item_found)))"

definition toggle_checklist_item ::
  "datetime \<Rightarrow> datetime \<Rightarrow> string \<Rightarrow> string \<Rightarrow> string \<Rightarrow> collection \<Rightarrow> string outcome" where
  "toggle_checklist_item utcnow1 utcnow2 checklist_id section item_id db =
     (if section \<notin> set valid_sections then (Inl invalid_section, db)
      else case find_one checklist_id db of
        None \<Rightarrow> (Inl checklist_not_found, db)
      | Some checklist \<Rightarrow>
          (case toggle_first item_id utcnow1 (get_section section checklist) of
             (items, item_found) \<Rightarrow>
               if \<not> item_found then (Inl item_not_found, db)
               else (case update_one checklist_id
                            (dollar_set [Items section items, Updated_at utcnow2]) db of
                       (db', modified_count) \<Rightarrow>
                         if modified_count = 0 then (Inl failed_to_update_item, db')
                         else (Inr ''Item toggled successfully'', db'))))"

definition add_photo ::
  "datetime \<Rightarrow> string \<Rightarrow> Photo \<Rightarrow> collection \<Rightarrow> (string \<times> Photo) outcome" where
  "add_photo utcnow checklist_id photo_data db =
     (case find_one checklist_id db of
        None \<Rightarrow> (Inl checklist_not_found, db)
      | Some existing \<Rightarrow>
          (case update_one checklist_id
                  (\<lambda>d. dollar_set [Updated_at utcnow] (push_photo photo_data d)) db of
             (db', modified_count) \<Rightarrow>
               if modified_count = 0 then (Inl failed_to_add_photo, db')
               else (Inr (''Photo added successfully'', photo_data), db')))"

subsection \<open>Sequences of requests\<close>

text \<open>
  A request is one call of a handler, with what the handler reads from the
  clock and the identifier generator during the call. \<open>serve\<close> gives the
  collection after the handler, whether it returned or raised; \<open>run\<close>
  serves requests one after another.
\<close>

datatype request =
    Create_checklist string datetime datetime VehicleChecklistCreate
  | Get_checklists "bool option"
  | Get_checklist string
  | Update_checklist datetime string VehicleChecklistUpdate
  | Delete_checklist string
  | Add_checklist_item string datetime string string string
  | Toggle_checklist_item datetime datetime string string string
  | Add_photo datetime string Photo

fun serve :: "request \<Rightarrow> collection \<Rightarrow> collection" where
  "serve (Create_checklist uuid4 utcnow1 utcnow2 checklist_data) db =
     snd (create_checklist uuid4 utcnow1 utcnow2 checklist_data db)"
| "serve (Get_checklists is_template_query) db = snd (get_checklists is_template_query db)"
| "serve (Get_checklist checklist_id) db = snd (get_checklist checklist_id db)"
| "serve (Update_checklist utcnow checklist_id update_data) db =
     snd (update_checklist utcnow checklist_id update_data db)"
| "serve (Delete_checklist checklist_id) db = snd (delete_checklist checklist_id db)"
| "serve (Add_checklist_item uuid4 utcnow checklist_id section item_text) db =
     snd (add_checklist_item uuid4 utcnow checklist_id section item_text db)"
| "serve (Toggle_checklist_item utcnow1 utcnow2 checklist_id section item_id) db =
     snd (toggle_checklist_item utcnow1 utcnow2 checklist_id section item_id db)"
| "serve (Add_photo utcnow checklist_id photo_data) db =
     snd (add_photo utcnow checklist_id photo_data db)"

definition run :: "request list \<Rightarrow> collection \<Rightarrow> collection" where
  "run rs db = fold serve rs db"

text \<open>The clock readings that a request writes into an \<^verbatim>\<open>updated_at\<close> field.\<close>

fun written :: "request \<Rightarrow> datetime list" where
  "written (Create_checklist uuid4 utcnow1 utcnow2 checklist_data) = [utcnow2]"
| "written (Update_checklist utcnow checklist_id update_data) = [utcnow]"
| "written (Add_checklist_item uuid4 utcnow checklist_id section item_text) = [utcnow]"
| "written (Toggle_checklist_item utcnow1 utcnow2 checklist_id section item_id) = [utcnow2]"
| "written (Add_photo utcnow checklist_id photo_data) = [utcnow]"
| "written _ = []"

subsection \<open>The completion invariant\<close>

text \<open>
  An item is consistent when \<^verbatim>\<open>completed_at\<close> is set exactly when
  \<^verbatim>\<open>completed\<close> holds; a checklist, when the items of its four lists are; a
  collection, when its checklists are; an update request, when the items of
  the lists it supplies are.
\<close>

definition item_ok :: "ChecklistItem \<Rightarrow> bool" where
  "item_ok item \<longleftrightarrow> (completed_at item \<noteq> None) = completed item"

definition checklist_ok :: "VehicleChecklist \<Rightarrow> bool" where
  "checklist_ok d \<longleftrightarrow>
     list_all item_ok (tasks d) \<and> list_all item_ok (parts_to_install d) \<and>
     list_all item_ok (maintenance d) \<and> list_all item_ok (research_items d)"

definition db_ok :: "collection \<Rightarrow> bool" where
  "db_ok db \<longleftrightarrow> list_all checklist_ok db"

definition items_ok :: "ChecklistItem list option \<Rightarrow> bool" where
  "items_ok v = (case v of None \<Rightarrow> True | Some items \<Rightarrow> list_all item_ok items)"

definition update_ok :: "VehicleChecklistUpdate \<Rightarrow> bool" where
  "update_ok update_data \<longleftrightarrow>
     items_ok (tasks_upd update_data) \<and> items_ok (parts_to_install_upd update_data) \<and>
     items_ok (maintenance_upd update_data) \<and> items_ok (research_items_upd update_data)"

subsection \<open>Example data\<close>

text \<open>
  The checklist of the scenario in the specification: a 1970 Ford Mustang
  with one task, created at time 1000 (one millisecond). Fields left out of
  a request take their default, the empty string.
\<close>

definition vehicle0 :: VehicleInfo where
  "vehicle0 =
     \<lparr>make_vehicle = ''Ford'', model = ''Mustang'', series = Some [], year = ''1970'',
      bodyType = Some [], doors = Some [], assembly = Some [], licensing = Some [],
      purchaseDate = Some [], vin = Some [], buildDate = Some [], trimCode = Some [],
      optionCode = Some [], odometer = Some [], paintColor = Some [], engine = Some [],
      transmission = Some [], drive = Some [], layout = Some [], rimSize = Some [],
      tyreSize = Some [], weight = Some [], wheelbase = Some [], length_vehicle = Some [],
      height = Some [], width = Some []\<rparr>"

definition engine0 :: EngineInfo where
  "engine0 =
     \<lparr>engineNumber = Some [], engineCode = Some [], description_engine = Some [],
      bore = Some [], stroke = Some [], compressionRatio = Some [], power_engine = Some [],
      torque = Some []\<rparr>"

definition item0 :: ChecklistItem where
  "item0 = \<lparr>id_item = ''i1'', text_item = ''Replace timing chain'',
            completed = False, completed_at = None\<rparr>"

definition checklist0 :: VehicleChecklist where
  "checklist0 =
     \<lparr>id_checklist = ''c1'', title = ''1970 Mustang'',
      vehicle_info = vehicle0, engine_info = engine0,
      tasks = [item0], parts_to_install = [], maintenance = [], research_items = [],
      photos = [], created_at = 1000, updated_at = 1000, is_template = False\<rparr>"

definition create0 :: VehicleChecklistCreate where
  "create0 =
     \<lparr>title_new = ''1970 Mustang'', vehicle_info_new = vehicle0, engine_info_new = engine0,
      is_template_new = Some False\<rparr>"

text \<open>The update request with no field set, \<^verbatim>\<open>{}\<close>.\<close>

definition no_update :: VehicleChecklistUpdate where
  "no_update =
     \<lparr>title_upd = None, vehicle_info_upd = None, engine_info_upd = None, tasks_upd = None,
      parts_to_install_upd = None, maintenance_upd = None, research_items_upd = None,
      photos_upd = None\<rparr>"

text \<open>
  An update request that replaces the title and empties the tasks; one whose
  task is marked completed with no completion time; a photo; the task of the
  example completed at time 1000, and the checklist holding it.
\<close>

definition retitle :: VehicleChecklistUpdate where
  "retitle = no_update\<lparr>title_upd := Some ''Fastback'', tasks_upd := Some []\<rparr>"

definition bad_update :: VehicleChecklistUpdate where
  "bad_update = no_update\<lparr>tasks_upd := Some [item0\<lparr>completed := True\<rparr>]\<rparr>"

definition photo0 :: Photo where
  "photo0 = \<lparr>id_photo = ''p1'', base64_data = ''AAAA'', description_photo = Some [],
             timestamp = 2000\<rparr>"

definition done0 :: ChecklistItem where
  "done0 = item0\<lparr>completed := True, completed_at := Some 1000\<rparr>"

definition checklist1 :: VehicleChecklist where
  "checklist1 = checklist0\<lparr>tasks := [done0]\<rparr>"

text \<open>
  The checklist that a create request with identifier \<open>c2\<close> and clock
  readings 5000 and 6000 makes, a second task, and two sequences of requests on
  the example checklist.
\<close>

definition checklist2 :: VehicleChecklist where
  "checklist2 =
     \<lparr>id_checklist = ''c2'', title = ''1970 Mustang'',
      vehicle_info = vehicle0, engine_info = engine0,
      tasks = [], parts_to_install = [], maintenance = [], research_items = [],
      photos = [], created_at = 5000, updated_at = 6000, is_template = False\<rparr>"

definition item2 :: ChecklistItem where
  "item2 = \<lparr>id_item = ''i2'', text_item = ''Bleed brakes'',
            completed = False, completed_at = None\<rparr>"

definition requests1 :: "request list" where
  "requests1 = [Toggle_checklist_item 2000 2000 ''c1'' ''tasks'' ''i1'']"

definition requests2 :: "request list" where
  "requests2 = [Get_checklist ''c1'', Update_checklist 3500 ''c1'' no_update]"

section \<open>Lemmas\<close>

subsection \<open>Dates and documents in BSON form\<close>

lemma millis_div: "millis t = t div 1000 * 1000"
  by (simp add: millis_def minus_mod_eq_div_mult)

lemma millis_idem [simp]: "millis (millis t) = millis t"
  by (simp add: millis_div)

lemma millis_mono: "a \<le> b \<Longrightarrow> millis a \<le> millis b"
  by (simp add: millis_div div_le_mono)

lemma bson_item_sel [simp]:
  "id_item (bson_item i) = id_item i"
  "text_item (bson_item i) = text_item i"
  "completed (bson_item i) = completed i"
  "completed_at (bson_item i) = map_option millis (completed_at i)"
  by (simp_all add: bson_item_def)

lemma bson_item_idem [simp]: "bson_item (bson_item i) = bson_item i"
  by (simp add: bson_item_def option.map_comp comp_def)

lemma bson_photo_idem [simp]: "bson_photo (bson_photo p) = bson_photo p"
  by (simp add: bson_photo_def)

lemma bson_sel [simp]:
  "id_checklist (bson d) = id_checklist d"
  "title (bson d) = title d"
  "vehicle_info (bson d) = vehicle_info d"
  "engine_info (bson d) = engine_info d"
  "is_template (bson d) = is_template d"
  "tasks (bson d) = map bson_item (tasks d)"
  "parts_to_install (bson d) = map bson_item (parts_to_install d)"
  "maintenance (bson d) = map bson_item (maintenance d)"
  "research_items (bson d) = map bson_item (research_items d)"
  "photos (bson d) = map bson_photo (photos d)"
  "created_at (bson d) = millis (created_at d)"
  "updated_at (bson d) = millis (updated_at d)"
  by (simp_all add: bson_def)

lemma bson_idem [simp]: "bson (bson d) = bson d"
  by (simp add: bson_def comp_def)

lemma get_section_bson: "get_section s (bson d) = map bson_item (get_section s d)"
  by (simp add: get_section_def)

subsection \<open>Reading and writing the collection\<close>

lemma find_one_id: "find_one cid db = Some d \<Longrightarrow> id_checklist d = cid"
  by (induction db) (auto split: if_splits)

lemma find_one_bson: "find_one cid db = Some d \<Longrightarrow> bson d = d"
  by (induction db) (auto split: if_splits)

lemma find_one_mem: "find_one cid db = Some d \<Longrightarrow> d \<in> bson ` set db"
  by (induction db) (auto split: if_splits)

lemma find_one_append:
  "find_one cid (db @ [x]) =
     (case find_one cid db of
        None \<Rightarrow> if id_checklist x = cid then Some (bson x) else None
      | Some d \<Rightarrow> Some d)"
  by (induction db) simp_all

lemma stored_fields:
  assumes "find_one cid db = Some d"
  shows "map bson_item (get_section s d) = get_section s d"
    and "map bson_item (tasks d) = tasks d"
    and "map bson_item (parts_to_install d) = parts_to_install d"
    and "map bson_item (maintenance d) = maintenance d"
    and "map bson_item (research_items d) = research_items d"
    and "map bson_photo (photos d) = photos d"
    and "millis (created_at d) = created_at d"
    and "millis (updated_at d) = updated_at d"
proof -
  have e: "bson d = d" using assms by (rule find_one_bson)
  show "map bson_item (get_section s d) = get_section s d"
    using get_section_bson [of s d] e by simp
  show "map bson_item (tasks d) = tasks d" using bson_sel(6) [of d] e by simp
  show "map bson_item (parts_to_install d) = parts_to_install d"
    using bson_sel(7) [of d] e by simp
  show "map bson_item (maintenance d) = maintenance d" using bson_sel(8) [of d] e by simp
  show "map bson_item (research_items d) = research_items d"
    using bson_sel(9) [of d] e by simp
  show "map bson_photo (photos d) = photos d" using bson_sel(10) [of d] e by simp
  show "millis (created_at d) = created_at d" using bson_sel(11) [of d] e by simp
  show "millis (updated_at d) = updated_at d" using bson_sel(12) [of d] e by simp
qed

lemma update_one_count:
  "find_one cid db = Some d \<Longrightarrow> snd (update_one cid f db) = (if bson (f d) = d then 0 else 1)"
  by (induction db) (auto split: if_splits prod.splits)

lemma update_one_absent: "find_one cid db = None \<Longrightarrow> update_one cid f db = (db, 0)"
  by (induction db) (auto split: if_splits prod.splits)

lemma update_one_zero: "snd (update_one cid f db) = 0 \<Longrightarrow> fst (update_one cid f db) = db"
  by (induction db) (auto split: if_splits prod.splits)

lemma find_one_update_one:
  "(\<And>x. id_checklist (f x) = id_checklist x) \<Longrightarrow>
   find_one cid (fst (update_one c f db)) =
     (if c = cid then map_option (\<lambda>d. bson (f d)) (find_one cid db) else find_one cid db)"
  by (induction db) (auto split: prod.splits)

lemma find_one_update_one_same:
  "find_one cid db = Some d \<Longrightarrow> id_checklist (f d) = cid \<Longrightarrow>
   find_one cid (fst (update_one cid f db)) = Some (bson (f d))"
  by (induction db) (auto split: if_splits prod.splits)

lemma find_one_update_one_other:
  "(\<And>d. id_checklist (f d) = id_checklist d) \<Longrightarrow> cid' \<noteq> cid \<Longrightarrow>
   find_one cid' (fst (update_one cid f db)) = find_one cid' db"
  by (simp add: find_one_update_one)

lemma find_one_delete_one:
  "c \<noteq> cid \<Longrightarrow> find_one cid (fst (delete_one c db)) = find_one cid db"
  by (induction db) (auto split: prod.splits)

subsection \<open>The update operators\<close>

lemma get_set_section_same:
  "section \<in> set valid_sections \<Longrightarrow> get_section section (set_section section v d) = v"
  by (auto simp: valid_sections_def get_section_def set_section_def)

lemma get_set_section_other:
  "s \<noteq> section \<Longrightarrow> get_section s (set_section section v d) = get_section s d"
  by (auto simp: get_section_def set_section_def)

lemma get_section_updated_at: "get_section s (d\<lparr>updated_at := t\<rparr>) = get_section s d"
  by (simp add: get_section_def)

lemma set_section_frame:
  "id_checklist (set_section s v d) = id_checklist d"
  "created_at (set_section s v d) = created_at d"
  "updated_at (set_section s v d) = updated_at d"
  "is_template (set_section s v d) = is_template d"
  "title (set_section s v d) = title d"
  "vehicle_info (set_section s v d) = vehicle_info d"
  "engine_info (set_section s v d) = engine_info d"
  "photos (set_section s v d) = photos d"
  by (simp_all add: set_section_def)

lemma set_field_frame:
  "id_checklist (set_field e d) = id_checklist d"
  "created_at (set_field e d) = created_at d"
  "is_template (set_field e d) = is_template d"
  by (cases e; simp add: set_section_frame)+

lemma dollar_set_frame:
  "id_checklist (dollar_set es d) = id_checklist d"
  "created_at (dollar_set es d) = created_at d"
  "is_template (dollar_set es d) = is_template d"
  unfolding dollar_set_def
  by (induction es arbitrary: d; simp add: set_field_frame)+

lemma push_item_frame:
  "id_checklist (push_item s i d) = id_checklist d"
  "updated_at (push_item s i d) = updated_at d"
  by (simp_all add: push_item_def set_section_frame)

lemma dollar_set_update_dict:
  "dollar_set (update_dict u now) d =
     d\<lparr>title := (case title_upd u of None \<Rightarrow> title d | Some v \<Rightarrow> v),
       vehicle_info := (case vehicle_info_upd u of None \<Rightarrow> vehicle_info d | Some v \<Rightarrow> v),
       engine_info := (case engine_info_upd u of None \<Rightarrow> engine_info d | Some v \<Rightarrow> v),
       tasks := (case tasks_upd u of None \<Rightarrow> tasks d | Some v \<Rightarrow> v),
       parts_to_install := (case parts_to_install_upd u of None \<Rightarrow> parts_to_install d | Some v \<Rightarrow> v),
       maintenance := (case maintenance_upd u of None \<Rightarrow> maintenance d | Some v \<Rightarrow> v),
       research_items := (case research_items_upd u of None \<Rightarrow> research_items d | Some v \<Rightarrow> v),
       photos := (case photos_upd u of None \<Rightarrow> photos d | Some v \<Rightarrow> v),
       updated_at := now\<rparr>"
  by (cases "title_upd u"; cases "vehicle_info_upd u"; cases "engine_info_upd u";
      cases "tasks_upd u"; cases "parts_to_install_upd u"; cases "maintenance_upd u";
      cases "research_items_upd u"; cases "photos_upd u";
      simp add: dollar_set_def update_dict_def dict_update_def set_section_def)

lemma updated_at_dollar_set_last:
  "updated_at (dollar_set (es @ [Updated_at t]) d) = t"
  by (simp add: dollar_set_def)

lemma updated_at_update_dict: "updated_at (dollar_set (update_dict u now) d) = now"
  by (simp add: update_dict_def updated_at_dollar_set_last)

lemma add_item_changes:
  assumes "section \<in> set valid_sections"
  shows "bson (dollar_set [Updated_at now] (push_item section item d)) \<noteq> d"
proof
  assume "bson (dollar_set [Updated_at now] (push_item section item d)) = d"
  then have "length (get_section section
      (bson (dollar_set [Updated_at now] (push_item section item d)))) =
      length (get_section section d)" by simp
  then show False using assms
    by (simp add: get_section_bson dollar_set_def push_item_def get_section_updated_at
        get_set_section_same)
qed

lemma toggle_changes:
  assumes "section \<in> set valid_sections"
    and "map completed items \<noteq> map completed (get_section section d)"
  shows "bson (dollar_set [Items section items, Updated_at now] d) \<noteq> d"
proof
  assume "bson (dollar_set [Items section items, Updated_at now] d) = d"
  then have "map completed (get_section section
      (bson (dollar_set [Items section items, Updated_at now] d))) =
      map completed (get_section section d)" by simp
  then show False using assms
    by (simp add: get_section_bson dollar_set_def get_section_updated_at get_set_section_same
        comp_def)
qed

lemma push_photo_changes:
  "bson (dollar_set [Updated_at now] (push_photo photo d)) \<noteq> d"
proof
  assume "bson (dollar_set [Updated_at now] (push_photo photo d)) = d"
  then have "length (photos (bson (dollar_set [Updated_at now] (push_photo photo d)))) =
      length (photos d)" by simp
  then show False
    by (simp add: dollar_set_def push_photo_def)
qed

subsection \<open>The loop of the toggle handler\<close>

lemma toggle_first_Cons [simp]:
  "toggle_first item_id t (item # items) =
     (if id_item item = item_id
      then (item\<lparr>completed := \<not> completed item,
                 completed_at := (if \<not> completed item then Some t else None)\<rparr> # items,
            True)
      else (case toggle_first item_id t items of
              (items', item_found) \<Rightarrow> (item # items', item_found)))"
  by (simp add: Let_def)

declare toggle_first.simps(2) [simp del]

lemma toggle_first_found:
  "snd (toggle_first item_id t xs) \<longleftrightarrow> item_id \<in> id_item ` set xs"
  by (induction xs) (auto split: prod.splits)

lemma toggle_first_changes:
  "snd (toggle_first item_id t xs) \<Longrightarrow>
   map completed (fst (toggle_first item_id t xs)) \<noteq> map completed xs"
  by (induction xs) (auto split: prod.splits)

lemma find_toggle_first:
  "find (\<lambda>i. id_item i = item_id) xs = Some item \<Longrightarrow>
   find (\<lambda>i. id_item i = item_id) (fst (toggle_first item_id t xs)) =
     Some (item\<lparr>completed := \<not> completed item,
                completed_at := (if \<not> completed item then Some t else None)\<rparr>)"
  by (induction xs) (auto split: prod.splits if_splits)

lemma find_found:
  "find (\<lambda>i. id_item i = item_id) xs = Some item \<Longrightarrow> item_id \<in> id_item ` set xs"
  by (induction xs) (auto split: if_splits)

lemma toggle_first_twice:
  "find (\<lambda>i. id_item i = item_id) xs = Some item \<Longrightarrow>
   \<not> completed item \<Longrightarrow> completed_at item = None \<Longrightarrow>
   fst (toggle_first item_id t' (fst (toggle_first item_id t xs))) = xs"
  by (induction xs) (auto split: prod.splits if_splits)

lemma toggle_first_bson:
  "toggle_first item_id (millis t) (map bson_item xs) =
     (map bson_item (fst (toggle_first item_id t xs)), snd (toggle_first item_id t xs))"
  by (induction xs) (auto simp: bson_item_def split: prod.splits)

subsection \<open>The outcomes of the handlers\<close>

lemma exn_distinct:
  "checklist_not_found \<noteq> failed_to_update"
  "failed_to_update \<noteq> checklist_not_found"
  "failed_to_update \<noteq> TypeError"
  "checklist_not_found \<noteq> TypeError"
  by (simp_all add: checklist_not_found_def failed_to_update_def)

lemma update_checklist_cases:
  "update_checklist now cid u db =
     (case find_one cid db of
        None \<Rightarrow> (Inl checklist_not_found, db)
      | Some d \<Rightarrow>
          if bson (dollar_set (update_dict u now) d) = d then (Inl failed_to_update, db)
          else (Inr (bson (dollar_set (update_dict u now) d)),
                fst (update_one cid (dollar_set (update_dict u now)) db)))"
proof (cases "find_one cid db")
  case None
  then show ?thesis by (simp add: update_checklist_def)
next
  case (Some d)
  let ?f = "dollar_set (update_dict u now)"
  obtain db' m where u: "update_one cid ?f db = (db', m)"
    by (cases "update_one cid ?f db")
  have n: "m = (if bson (?f d) = d then 0 else 1)"
    using update_one_count [OF Some, of ?f] u by simp
  have z: "m = 0 \<Longrightarrow> db' = db"
    using update_one_zero [of cid ?f db] u by simp
  have i: "id_checklist (?f d) = cid"
    using Some by (simp add: dollar_set_frame find_one_id)
  have r: "find_one cid db' = Some (bson (?f d))"
    using find_one_update_one_same [of cid db d ?f] Some i u by simp
  show ?thesis using Some u n z r
    by (simp add: update_checklist_def)
qed

lemma update_checklist_success:
  assumes "update_checklist now cid u db = (Inr r, db')"
  shows "\<exists>d. find_one cid db = Some d \<and> r = bson (dollar_set (update_dict u now) d) \<and>
    db' = fst (update_one cid (dollar_set (update_dict u now)) db)"
  using assms by (auto simp: update_checklist_cases split: option.splits if_splits)

lemma add_checklist_item_cases:
  assumes "section \<in> set valid_sections" and "find_one cid db = Some d"
  shows "add_checklist_item uuid4 now cid section item_text db =
    (Inr (''Item added successfully'',
          \<lparr>id_item = uuid4, text_item = item_text, completed = False, completed_at = None\<rparr>),
     fst (update_one cid (\<lambda>d. dollar_set [Updated_at now] (push_item section
       \<lparr>id_item = uuid4, text_item = item_text, completed = False, completed_at = None\<rparr> d)) db))"
proof -
  let ?item = "\<lparr>id_item = uuid4, text_item = item_text, completed = False, completed_at = None\<rparr>"
  let ?f = "\<lambda>d. dollar_set [Updated_at now] (push_item section ?item d)"
  obtain db' m where u: "update_one cid ?f db = (db', m)"
    by (cases "update_one cid ?f db")
  have "m = (if bson (?f d) = d then 0 else 1)"
    using update_one_count [OF assms(2), of ?f] u by simp
  then have "m = 1" using add_item_changes [OF assms(1)] by simp
  then show ?thesis using assms u
    by (simp add: add_checklist_item_def)
qed

lemma add_checklist_item_success:
  assumes "add_checklist_item uuid4 now cid section item_text db = (Inr a, db')"
  shows "\<exists>d. find_one cid db = Some d \<and> section \<in> set valid_sections"
  using assms by (auto simp: add_checklist_item_def split: option.splits if_splits)

lemma toggle_checklist_item_cases:
  assumes "section \<in> set valid_sections" and "find_one cid db = Some d"
    and "item_id \<in> id_item ` set (get_section section d)"
  shows "toggle_checklist_item now1 now2 cid section item_id db =
      (Inr ''Item toggled successfully'',
       fst (update_one cid (dollar_set
         [Items section (fst (toggle_first item_id now1 (get_section section d))),
          Updated_at now2]) db)) \<and>
    find_one cid (fst (update_one cid (dollar_set
         [Items section (fst (toggle_first item_id now1 (get_section section d))),
          Updated_at now2]) db)) =
      Some (bson (dollar_set
         [Items section (fst (toggle_first item_id now1 (get_section section d))),
          Updated_at now2] d))"
proof -
  let ?items = "fst (toggle_first item_id now1 (get_section section d))"
  let ?f = "dollar_set [Items section ?items, Updated_at now2]"
  obtain items found where t: "toggle_first item_id now1 (get_section section d) = (items, found)"
    by (cases "toggle_first item_id now1 (get_section section d)")
  have found: "found"
    using toggle_first_found [of item_id now1 "get_section section d"] assms(3) t by simp
  have "map completed ?items \<noteq> map completed (get_section section d)"
    using toggle_first_changes [of item_id now1 "get_section section d"] found t by simp
  then have ch: "bson (?f d) \<noteq> d"
    using toggle_changes [OF assms(1)] by blast
  obtain db' m where u: "update_one cid ?f db = (db', m)"
    by (cases "update_one cid ?f db")
  have "m = (if bson (?f d) = d then 0 else 1)"
    using update_one_count [OF assms(2), of ?f] u by simp
  then have m: "m = 1" using ch by simp
  have i: "id_checklist (?f d) = cid"
    using assms(2) by (simp add: dollar_set_frame find_one_id)
  have r: "find_one cid (fst (update_one cid ?f db)) = Some (bson (?f d))"
    using find_one_update_one_same [of cid db d ?f] assms(2) i by simp
  have "toggle_checklist_item now1 now2 cid section item_id db =
      (Inr ''Item toggled successfully'', fst (update_one cid ?f db))"
    using assms(1,2) t found u m by (simp add: toggle_checklist_item_def)
  with r show ?thesis by simp
qed

lemma toggle_checklist_item_success:
  assumes "toggle_checklist_item now1 now2 cid section item_id db = (Inr a, db')"
  shows "\<exists>d. find_one cid db = Some d \<and> section \<in> set valid_sections \<and>
    item_id \<in> id_item ` set (get_section section d)"
  using assms
  by (auto simp: toggle_checklist_item_def split: option.splits if_splits prod.splits)
    (metis toggle_first_found snd_conv)

lemma add_photo_cases:
  assumes "find_one cid db = Some d"
  shows "add_photo now cid photo_data db =
    (Inr (''Photo added successfully'', photo_data),
     fst (update_one cid (\<lambda>d. dollar_set [Updated_at now] (push_photo photo_data d)) db))"
proof -
  let ?f = "\<lambda>d. dollar_set [Updated_at now] (push_photo photo_data d)"
  obtain db' m where u: "update_one cid ?f db = (db', m)"
    by (cases "update_one cid ?f db")
  have "m = (if bson (?f d) = d then 0 else 1)"
    using update_one_count [OF assms, of ?f] u by simp
  then have "m = 1" using push_photo_changes [of now photo_data d] by simp
  then show ?thesis using assms u by (simp add: add_photo_def)
qed

lemma add_photo_success:
  assumes "add_photo now cid photo_data db = (Inr a, db')"
  shows "\<exists>d. find_one cid db = Some d"
  using assms by (auto simp: add_photo_def split: option.splits)

lemma snd_create_checklist:
  "snd (create_checklist uuid4 now1 now2 checklist_data db) = db \<or>
   (\<exists>t. snd (create_checklist uuid4 now1 now2 checklist_data db) = db @
      [bson \<lparr>id_checklist = uuid4, title = title_new checklist_data,
        vehicle_info = vehicle_info_new checklist_data,
        engine_info = engine_info_new checklist_data,
        tasks = [], parts_to_install = [], maintenance = [], research_items = [],
        photos = [], created_at = now1, updated_at = now2, is_template = t\<rparr>])"
  by (auto simp: create_checklist_def insert_one_def Let_def split: option.splits)

lemma snd_update_checklist:
  "snd (update_checklist now c u db) = db \<or>
   snd (update_checklist now c u db) = fst (update_one c (dollar_set (update_dict u now)) db)"
  by (simp add: update_checklist_def split: option.splits prod.splits)

lemma snd_add_checklist_item:
  "snd (add_checklist_item uuid4 now c section item_text db) = db \<or>
   (section \<in> set valid_sections \<and>
    snd (add_checklist_item uuid4 now c section item_text db) =
      fst (update_one c (\<lambda>d. dollar_set [Updated_at now] (push_item section
        \<lparr>id_item = uuid4, text_item = item_text, completed = False, completed_at = None\<rparr> d)) db))"
  by (simp add: add_checklist_item_def Let_def split: option.splits prod.splits)

lemma snd_toggle_checklist_item:
  "snd (toggle_checklist_item now1 now2 c section item_id db) = db \<or>
   (\<exists>d. section \<in> set valid_sections \<and> find_one c db = Some d \<and>
      snd (toggle_checklist_item now1 now2 c section item_id db) =
        fst (update_one c (dollar_set
          [Items section (fst (toggle_first item_id now1 (get_section section d))),
           Updated_at now2]) db))"
  by (simp add: toggle_checklist_item_def split: option.splits prod.splits)

lemma snd_add_photo:
  "snd (add_photo now c photo_data db) = db \<or>
   snd (add_photo now c photo_data db) =
     fst (update_one c (\<lambda>d. dollar_set [Updated_at now] (push_photo photo_data d)) db)"
  by (simp add: add_photo_def split: option.splits prod.splits)

subsection \<open>Collections that the store has built\<close>

text \<open>
  A collection that the handlers have built from the empty one holds BSON
  documents only, and there \<open>find_one\<close> is the plain search for the first
  document with the id.
\<close>

lemma find_one_stored:
  "\<forall>d \<in> set db. bson d = d \<Longrightarrow> find_one cid db = find (\<lambda>d. id_checklist d = cid) db"
  by (induction db) simp_all

lemma update_one_stored:
  "\<forall>d \<in> set db. bson d = d \<Longrightarrow> \<forall>d \<in> set (fst (update_one c f db)). bson d = d"
  by (induction db) (auto split: prod.splits)

lemma delete_one_stored:
  "\<forall>d \<in> set db. bson d = d \<Longrightarrow> \<forall>d \<in> set (fst (delete_one c db)). bson d = d"
  by (induction db) (auto split: prod.splits)

lemma snd_delete_checklist: "snd (delete_checklist c db) = fst (delete_one c db)"
  by (cases "delete_one c db") (simp add: delete_checklist_def)

lemma create_stored:
  assumes "\<forall>d \<in> set db. bson d = d"
  shows "\<forall>d \<in> set (snd (create_checklist uuid4 now1 now2 checklist_data db)). bson d = d"
proof (cases "is_template_new checklist_data")
  case None
  with assms show ?thesis by (simp add: create_checklist_def)
next
  case (Some t)
  with assms show ?thesis by (simp add: create_checklist_def insert_one_def Let_def)
qed

lemma update_stored:
  assumes "\<forall>d \<in> set db. bson d = d"
  shows "\<forall>d \<in> set (snd (update_checklist now c u db)). bson d = d"
  using snd_update_checklist [of now c u db]
proof
  assume "snd (update_checklist now c u db) = db"
  with assms show ?thesis by simp
next
  assume e: "snd (update_checklist now c u db) =
    fst (update_one c (dollar_set (update_dict u now)) db)"
  show ?thesis unfolding e using assms by (rule update_one_stored)
qed

lemma add_item_stored:
  assumes "\<forall>d \<in> set db. bson d = d"
  shows "\<forall>d \<in> set (snd (add_checklist_item uuid4 now c section item_text db)). bson d = d"
  using snd_add_checklist_item [of uuid4 now c "section" item_text db]
proof
  assume "snd (add_checklist_item uuid4 now c section item_text db) = db"
  with assms show ?thesis by simp
next
  assume "section \<in> set valid_sections \<and>
    snd (add_checklist_item uuid4 now c section item_text db) =
      fst (update_one c (\<lambda>d. dollar_set [Updated_at now] (push_item section
        \<lparr>id_item = uuid4, text_item = item_text, completed = False, completed_at = None\<rparr> d)) db)"
  then have e: "snd (add_checklist_item uuid4 now c section item_text db) =
      fst (update_one c (\<lambda>d. dollar_set [Updated_at now] (push_item section
        \<lparr>id_item = uuid4, text_item = item_text, completed = False, completed_at = None\<rparr> d)) db)"
    by (rule conjunct2)
  show ?thesis unfolding e using assms by (rule update_one_stored)
qed

lemma toggle_stored:
  assumes "\<forall>d \<in> set db. bson d = d"
  shows "\<forall>d \<in> set (snd (toggle_checklist_item now1 now2 c section item_id db)). bson d = d"
  using snd_toggle_checklist_item [of now1 now2 c "section" item_id db]
proof
  assume "snd (toggle_checklist_item now1 now2 c section item_id db) = db"
  with assms show ?thesis by simp
next
  assume "\<exists>d. section \<in> set valid_sections \<and> find_one c db = Some d \<and>
      snd (toggle_checklist_item now1 now2 c section item_id db) =
        fst (update_one c (dollar_set
          [Items section (fst (toggle_first item_id now1 (get_section section d))),
           Updated_at now2]) db)"
  then obtain d where e: "snd (toggle_checklist_item now1 now2 c section item_id db) =
        fst (update_one c (dollar_set
          [Items section (fst (toggle_first item_id now1 (get_section section d))),
           Updated_at now2]) db)"
    by (elim exE conjE)
  show ?thesis unfolding e using assms by (rule update_one_stored)
qed

lemma add_photo_stored:
  assumes "\<forall>d \<in> set db. bson d = d"
  shows "\<forall>d \<in> set (snd (add_photo now c photo_data db)). bson d = d"
  using snd_add_photo [of now c photo_data db]
proof
  assume "snd (add_photo now c photo_data db) = db"
  with assms show ?thesis by simp
next
  assume e: "snd (add_photo now c photo_data db) =
     fst (update_one c (\<lambda>d. dollar_set [Updated_at now] (push_photo photo_data d)) db)"
  show ?thesis unfolding e using assms by (rule update_one_stored)
qed

lemma serve_stored:
  assumes "\<forall>d \<in> set db. bson d = d"
  shows "\<forall>d \<in> set (serve r db). bson d = d"
proof (cases r)
  case (Create_checklist uuid4 now1 now2 checklist_data)
  show ?thesis unfolding Create_checklist serve.simps using assms by (rule create_stored)
next
  case (Get_checklists q)
  show ?thesis unfolding Get_checklists serve.simps using assms by (simp add: get_checklists_def)
next
  case (Get_checklist c)
  show ?thesis unfolding Get_checklist serve.simps using assms
    by (cases "find_one c db") (simp_all add: get_checklist_def)
next
  case (Update_checklist now c u)
  show ?thesis unfolding Update_checklist serve.simps using assms by (rule update_stored)
next
  case (Delete_checklist c)
  show ?thesis unfolding Delete_checklist serve.simps snd_delete_checklist
    using assms by (rule delete_one_stored)
next
  case (Add_checklist_item uuid4 now c s item_text)
  show ?thesis unfolding Add_checklist_item serve.simps using assms by (rule add_item_stored)
next
  case (Toggle_checklist_item now1 now2 c s item_id)
  show ?thesis unfolding Toggle_checklist_item serve.simps using assms by (rule toggle_stored)
next
  case (Add_photo now c photo_data)
  show ?thesis unfolding Add_photo serve.simps using assms by (rule add_photo_stored)
qed

lemma run_stored:
  "\<forall>d \<in> set db. bson d = d \<Longrightarrow> \<forall>d \<in> set (run rs db). bson d = d"
proof (induction rs arbitrary: db)
  case Nil
  then show ?case by (simp add: run_def)
next
  case (Cons r rs)
  have "\<forall>d \<in> set (run rs (serve r db)). bson d = d"
    using serve_stored [OF Cons.prems, of r] by (rule Cons.IH)
  then show ?case by (simp add: run_def)
qed

subsection \<open>Preservation of the completion invariant\<close>

lemma item_ok_bson [simp]: "item_ok (bson_item i) = item_ok i"
  by (simp add: item_ok_def)

lemma items_ok_bson [simp]: "list_all item_ok (map bson_item xs) = list_all item_ok xs"
  by (induction xs) simp_all

lemma checklist_ok_bson [simp]: "checklist_ok (bson d) = checklist_ok d"
  by (simp add: checklist_ok_def)

lemma toggle_first_ok:
  "list_all item_ok xs \<Longrightarrow> list_all item_ok (fst (toggle_first item_id t xs))"
  by (induction xs) (auto simp: item_ok_def split: prod.splits)

lemma get_section_ok: "checklist_ok d \<Longrightarrow> list_all item_ok (get_section s d)"
  by (simp add: checklist_ok_def get_section_def)

lemma set_section_ok:
  "checklist_ok d \<Longrightarrow> list_all item_ok v \<Longrightarrow> checklist_ok (set_section s v d)"
  by (simp add: checklist_ok_def set_section_def)

lemma updated_at_ok: "checklist_ok (d\<lparr>updated_at := t\<rparr>) = checklist_ok d"
  by (simp add: checklist_ok_def)

lemma photos_ok: "checklist_ok (d\<lparr>photos := t\<rparr>) = checklist_ok d"
  by (simp add: checklist_ok_def)

lemma update_one_ok:
  "db_ok db \<Longrightarrow> (\<And>d. checklist_ok d \<Longrightarrow> checklist_ok (f d)) \<Longrightarrow>
   db_ok (fst (update_one c f db))"
  unfolding db_ok_def
  by (induction db) (auto split: prod.splits)

lemma update_dict_ok:
  "update_ok u \<Longrightarrow> checklist_ok d \<Longrightarrow> checklist_ok (dollar_set (update_dict u now) d)"
  by (auto simp: dollar_set_update_dict update_ok_def items_ok_def checklist_ok_def
      split: option.splits)

lemma create_ok:
  "db_ok db \<Longrightarrow> db_ok (snd (create_checklist uuid4 now1 now2 checklist_data db))"
  using snd_create_checklist [of uuid4 now1 now2 checklist_data db]
  by (auto simp: db_ok_def) (simp add: checklist_ok_def)

lemma update_ok_db:
  "db_ok db \<Longrightarrow> update_ok u \<Longrightarrow> db_ok (snd (update_checklist now c u db))"
  using snd_update_checklist [of now c u db] update_one_ok [of db "dollar_set (update_dict u now)" c]
  by (auto simp: update_dict_ok)

lemma add_item_ok:
  "db_ok db \<Longrightarrow> db_ok (snd (add_checklist_item uuid4 now c section item_text db))"
  using snd_add_checklist_item [of uuid4 now c "section" item_text db]
  by (auto intro!: update_one_ok set_section_ok
      simp: dollar_set_def push_item_def updated_at_ok get_section_ok item_ok_def)

lemma toggle_ok:
  assumes "db_ok db"
  shows "db_ok (snd (toggle_checklist_item now1 now2 c section item_id db))"
proof -
  from snd_toggle_checklist_item [of now1 now2 c "section" item_id db]
  show ?thesis
  proof
    assume "snd (toggle_checklist_item now1 now2 c section item_id db) = db"
    with assms show ?thesis by simp
  next
    assume "\<exists>d. section \<in> set valid_sections \<and> find_one c db = Some d \<and>
      snd (toggle_checklist_item now1 now2 c section item_id db) =
        fst (update_one c (dollar_set
          [Items section (fst (toggle_first item_id now1 (get_section section d))),
           Updated_at now2]) db)"
    then obtain d where d: "find_one c db = Some d"
      and s: "snd (toggle_checklist_item now1 now2 c section item_id db) =
        fst (update_one c (dollar_set
          [Items section (fst (toggle_first item_id now1 (get_section section d))),
           Updated_at now2]) db)"
      by blast
    have "d \<in> bson ` set db" using d by (rule find_one_mem)
    with assms have "checklist_ok d" by (auto simp: db_ok_def list_all_iff)
    then have "list_all item_ok (fst (toggle_first item_id now1 (get_section section d)))"
      by (intro toggle_first_ok get_section_ok)
    then show ?thesis
      unfolding s using assms
      by (auto intro!: update_one_ok set_section_ok simp: dollar_set_def updated_at_ok)
  qed
qed

lemma add_photo_ok:
  "db_ok db \<Longrightarrow> db_ok (snd (add_photo now c photo_data db))"
  using snd_add_photo [of now c photo_data db]
  by (auto intro!: update_one_ok simp: dollar_set_def push_photo_def updated_at_ok photos_ok)

subsection \<open>The timestamp of the last update\<close>

lemma update_checklist_refresh:
  assumes "update_checklist now cid u db = (Inr r, db')"
  shows "find_one cid db' = Some r \<and> updated_at r = millis now"
proof -
  from update_checklist_success [OF assms]
  obtain d where d: "find_one cid db = Some d"
    and r: "r = bson (dollar_set (update_dict u now) d)"
    and db': "db' = fst (update_one cid (dollar_set (update_dict u now)) db)"
    by blast
  have "find_one cid db' = Some r"
    unfolding db' r using d by (simp add: find_one_update_one dollar_set_frame)
  then show ?thesis by (simp add: r updated_at_update_dict)
qed

lemma add_checklist_item_refresh:
  assumes "add_checklist_item uuid4 now cid section item_text db = (Inr a, db')"
  shows "\<exists>d'. find_one cid db' = Some d' \<and> updated_at d' = millis now"
proof -
  let ?f = "\<lambda>d. dollar_set [Updated_at now] (push_item section
       \<lparr>id_item = uuid4, text_item = item_text, completed = False, completed_at = None\<rparr> d)"
  from add_checklist_item_success [OF assms]
  obtain d where d: "find_one cid db = Some d" and v: "section \<in> set valid_sections"
    by blast
  from add_checklist_item_cases [OF v d, of uuid4 now item_text] assms
  have db': "db' = fst (update_one cid ?f db)" by simp
  have "find_one cid db' = Some (bson (?f d))"
    unfolding db' using d by (simp add: find_one_update_one dollar_set_frame push_item_frame)
  moreover have "updated_at (bson (?f d)) = millis now" by (simp add: dollar_set_def)
  ultimately show ?thesis by blast
qed

lemma toggle_checklist_item_refresh:
  assumes "toggle_checklist_item now1 now2 cid section item_id db = (Inr a, db')"
  shows "\<exists>d'. find_one cid db' = Some d' \<and> updated_at d' = millis now2"
proof -
  from toggle_checklist_item_success [OF assms]
  obtain d where d: "find_one cid db = Some d" and v: "section \<in> set valid_sections"
    and i: "item_id \<in> id_item ` set (get_section section d)"
    by blast
  let ?f = "dollar_set [Items section (fst (toggle_first item_id now1 (get_section section d))),
          Updated_at now2]"
  from toggle_checklist_item_cases [OF v d i, of now1 now2] assms
  have "find_one cid db' = Some (bson (?f d))" by simp
  moreover have "updated_at (bson (?f d)) = millis now2" by (simp add: dollar_set_def)
  ultimately show ?thesis by blast
qed

lemma add_photo_refresh:
  assumes "add_photo now cid photo_data db = (Inr a, db')"
  shows "\<exists>d'. find_one cid db' = Some d' \<and> updated_at d' = millis now"
proof -
  let ?f = "\<lambda>d. dollar_set [Updated_at now] (push_photo photo_data d)"
  from add_photo_success [OF assms]
  obtain d where d: "find_one cid db = Some d"
    by blast
  from add_photo_cases [OF d, of now photo_data] assms
  have db': "db' = fst (update_one cid ?f db)" by simp
  have "id_checklist (?f x) = id_checklist x" for x
    by (simp add: dollar_set_def push_photo_def)
  then have "find_one cid db' = Some (bson (?f d))"
    unfolding db' using d by (simp add: find_one_update_one)
  moreover have "updated_at (bson (?f d)) = millis now" by (simp add: dollar_set_def)
  ultimately show ?thesis by blast
qed

lemma serve_updated_at:
  assumes "find_one cid db = Some d" and "r \<noteq> Delete_checklist cid"
  shows "\<exists>d'. find_one cid (serve r db) = Some d' \<and>
    (updated_at d' = updated_at d \<or> updated_at d' \<in> millis ` set (written r))"
proof (cases r)
  case (Create_checklist uuid4 now1 now2 checklist_data)
  then show ?thesis
    using assms(1) snd_create_checklist [of uuid4 now1 now2 checklist_data db]
    by (auto simp: find_one_append)
next
  case (Get_checklists q)
  then show ?thesis using assms(1) by (simp add: get_checklists_def)
next
  case (Get_checklist c)
  then show ?thesis using assms(1) by (simp add: get_checklist_def split: option.splits)
next
  case (Update_checklist now c u)
  have "find_one cid (fst (update_one c (dollar_set (update_dict u now)) db)) =
      (if c = cid then Some (bson (dollar_set (update_dict u now) d)) else Some d)"
    using assms(1) by (simp add: find_one_update_one dollar_set_frame)
  then show ?thesis
    using Update_checklist assms(1) snd_update_checklist [of now c u db]
    by (auto simp: updated_at_update_dict)
next
  case (Delete_checklist c)
  with assms(2) have "c \<noteq> cid" by simp
  then show ?thesis
    using Delete_checklist assms(1)
    by (simp add: delete_checklist_def find_one_delete_one split: prod.splits)
      (metis find_one_delete_one fst_conv)
next
  case (Add_checklist_item uuid4 now c s item_text)
  let ?f = "\<lambda>d. dollar_set [Updated_at now] (push_item s
        \<lparr>id_item = uuid4, text_item = item_text, completed = False, completed_at = None\<rparr> d)"
  have "find_one cid (fst (update_one c ?f db)) = (if c = cid then Some (bson (?f d)) else Some d)"
    using assms(1) by (simp add: find_one_update_one dollar_set_frame push_item_frame)
  moreover have "updated_at (bson (?f d)) = millis now" by (simp add: dollar_set_def)
  ultimately show ?thesis
    using Add_checklist_item assms(1) snd_add_checklist_item [of uuid4 now c s item_text db]
    by auto
next
  case (Toggle_checklist_item now1 now2 c s item_id)
  have "find_one cid (fst (update_one c (dollar_set [Items s items, Updated_at now2]) db)) =
      (if c = cid then Some (bson (dollar_set [Items s items, Updated_at now2] d)) else Some d)"
    for items
    using assms(1) by (simp add: find_one_update_one dollar_set_frame)
  moreover have "updated_at (bson (dollar_set [Items s items, Updated_at now2] d)) = millis now2"
    for items
    by (simp add: dollar_set_def)
  ultimately show ?thesis
    using Toggle_checklist_item assms(1) snd_toggle_checklist_item [of now1 now2 c s item_id db]
    by auto
next
  case (Add_photo now c photo_data)
  let ?f = "\<lambda>d. dollar_set [Updated_at now] (push_photo photo_data d)"
  have "id_checklist (?f x) = id_checklist x" for x
    by (simp add: dollar_set_def push_photo_def)
  then have "find_one cid (fst (update_one c ?f db)) =
      (if c = cid then Some (bson (?f d)) else Some d)"
    using assms(1) by (simp add: find_one_update_one)
  moreover have "updated_at (bson (?f d)) = millis now" by (simp add: dollar_set_def)
  ultimately show ?thesis
    using Add_photo assms(1) snd_add_photo [of now c photo_data db]
    by auto
qed

lemma run_append: "run (rs1 @ rs2) db = run rs2 (run rs1 db)"
  by (simp add: run_def)

lemma run_updated_at:
  "find_one cid db = Some d \<Longrightarrow> Delete_checklist cid \<notin> set rs \<Longrightarrow>
   \<exists>d'. find_one cid (run rs db) = Some d' \<and>
     (updated_at d' = updated_at d \<or>
      updated_at d' \<in> millis ` set (concat (map written rs)))"
proof (induction rs arbitrary: db d)
  case Nil
  then show ?case by (simp add: run_def)
next
  case (Cons r rs)
  from Cons.prems(2) have nd: "r \<noteq> Delete_checklist cid" and nds: "Delete_checklist cid \<notin> set rs"
    by auto
  from serve_updated_at [OF Cons.prems(1) nd]
  obtain d1 where d1: "find_one cid (serve r db) = Some d1"
    and u1: "updated_at d1 = updated_at d \<or> updated_at d1 \<in> millis ` set (written r)"
    by blast
  from Cons.IH [OF d1 nds]
  obtain d' where d': "find_one cid (run rs (serve r db)) = Some d'"
    and u': "updated_at d' = updated_at d1 \<or>
      updated_at d' \<in> millis ` set (concat (map written rs))"
    by blast
  have "find_one cid (run (r # rs) db) = Some d'"
    using d' by (simp add: run_def)
  moreover have "updated_at d' = updated_at d \<or>
      updated_at d' \<in> millis ` set (concat (map written (r # rs)))"
    using u1 u' by auto
  ultimately show ?case by blast
qed

lemma run_monotone:
  assumes "find_one cid db = Some d" and "Delete_checklist cid \<notin> set (rs1 @ rs2)"
    and "sorted (updated_at d # concat (map written (rs1 @ rs2)))"
  shows "\<exists>d1 d2. find_one cid (run rs1 db) = Some d1 \<and>
    find_one cid (run (rs1 @ rs2) db) = Some d2 \<and>
    updated_at d \<le> updated_at d1 \<and> updated_at d1 \<le> updated_at d2"
proof -
  from assms(2) have n1: "Delete_checklist cid \<notin> set rs1"
    and n2: "Delete_checklist cid \<notin> set rs2"
    by auto
  from run_updated_at [OF assms(1) n1]
  obtain d1 where d1: "find_one cid (run rs1 db) = Some d1"
    and u1: "updated_at d1 = updated_at d \<or>
      updated_at d1 \<in> millis ` set (concat (map written rs1))"
    by blast
  from run_updated_at [OF d1 n2]
  obtain d2 where d2: "find_one cid (run rs2 (run rs1 db)) = Some d2"
    and u2: "updated_at d2 = updated_at d1 \<or>
      updated_at d2 \<in> millis ` set (concat (map written rs2))"
    by blast
  have e: "millis (updated_at d) = updated_at d"
    using find_one_bson [OF assms(1)] by (metis bson_sel(12))
  from assms(3) have a: "\<forall>x \<in> set (concat (map written rs1)). updated_at d \<le> x"
    and b: "\<forall>y \<in> set (concat (map written rs2)). updated_at d \<le> y"
    and c: "\<forall>x \<in> set (concat (map written rs1)).
              \<forall>y \<in> set (concat (map written rs2)). x \<le> y"
    by (auto simp: sorted_append)
  have a': "\<forall>x \<in> set (concat (map written rs1)). updated_at d \<le> millis x"
    using a e millis_mono by metis
  have b': "\<forall>y \<in> set (concat (map written rs2)). updated_at d \<le> millis y"
    using b e millis_mono by metis
  have c': "\<forall>x \<in> set (concat (map written rs1)).
              \<forall>y \<in> set (concat (map written rs2)). millis x \<le> millis y"
    using c millis_mono by blast
  have "updated_at d \<le> updated_at d1"
    using u1 a' by auto
  moreover have "updated_at d1 \<le> updated_at d2"
    using u1 u2 b' c' by auto
  ultimately show ?thesis
    using d1 d2 by (simp add: run_append)
qed

subsection \<open>The handlers on the example data\<close>

lemma ex_id: "id_checklist checklist0 = ''c1''"
  by (simp add: checklist0_def)

lemma ex_bson: "bson checklist0 = checklist0"
  by (simp add: bson_def checklist0_def bson_item_def item0_def millis_def)

lemma ex_bson1: "bson checklist1 = checklist1"
  by (simp add: bson_def checklist1_def checklist0_def bson_item_def done0_def item0_def
      millis_def)

lemma ex_bson2: "bson checklist2 = checklist2"
  by (simp add: bson_def checklist2_def millis_def)

lemma ex_find: "find_one ''c1'' [checklist0] = Some checklist0"
  by (simp add: ex_id ex_bson)

lemma ex_find1: "find_one ''c1'' [checklist1] = Some checklist1"
  by (simp add: ex_bson1) (simp add: checklist1_def ex_id)

lemma ex_tasks_valid: "''tasks'' \<in> set valid_sections"
  by (simp add: valid_sections_def)

lemma ex_stamp: "checklist0\<lparr>updated_at := t\<rparr> = checklist0 \<longleftrightarrow> t = 1000"
  by (auto simp: checklist0_def)

lemma ex_no_update:
  "bson (dollar_set (update_dict no_update t) checklist0) = checklist0\<lparr>updated_at := millis t\<rparr>"
proof -
  have "bson (checklist0\<lparr>updated_at := t\<rparr>) = (bson checklist0)\<lparr>updated_at := millis t\<rparr>"
    by (simp add: bson_def)
  then show ?thesis
    by (simp add: dollar_set_update_dict no_update_def ex_bson)
qed

lemma ex_db_ok: "db_ok [checklist0]"
  by (simp add: db_ok_def checklist_ok_def item_ok_def checklist0_def item0_def)

lemma ex_update_no:
  "update_checklist t ''c1'' no_update [checklist0] =
     (if millis t = 1000 then (Inl failed_to_update, [checklist0])
      else (Inr (checklist0\<lparr>updated_at := millis t\<rparr>), [checklist0\<lparr>updated_at := millis t\<rparr>]))"
  by (simp add: update_checklist_cases ex_find ex_no_update ex_stamp ex_id ex_bson)

lemma ex_update:
  "update_checklist 2000 ''c1'' no_update [checklist0] =
     (Inr (checklist0\<lparr>updated_at := 2000\<rparr>), [checklist0\<lparr>updated_at := 2000\<rparr>])"
  by (simp add: ex_update_no millis_def)

lemma ex_update_same_millisecond:
  "update_checklist 1500 ''c1'' no_update [checklist0] = (Inl failed_to_update, [checklist0])"
  by (simp add: ex_update_no millis_def)

lemma ex_update_clock_back:
  "update_checklist 0 ''c1'' no_update [checklist0] =
     (Inr (checklist0\<lparr>updated_at := 0\<rparr>), [checklist0\<lparr>updated_at := 0\<rparr>])"
  by (simp add: ex_update_no millis_def)

lemma ex_retitle_bson:
  "bson (dollar_set (update_dict retitle 2000) checklist0) =
     checklist0\<lparr>title := ''Fastback'', tasks := [], updated_at := 2000\<rparr>"
  by (simp add: dollar_set_update_dict retitle_def no_update_def)
    (simp add: bson_def checklist0_def millis_def)

lemma ex_retitle:
  "update_checklist 2000 ''c1'' retitle [checklist0] =
     (Inr (checklist0\<lparr>title := ''Fastback'', tasks := [], updated_at := 2000\<rparr>),
      [checklist0\<lparr>title := ''Fastback'', tasks := [], updated_at := 2000\<rparr>])"
  by (simp add: update_checklist_cases ex_find ex_retitle_bson ex_id ex_bson)
    (simp add: checklist0_def)

lemma ex_bad_update_bson:
  "bson (dollar_set (update_dict bad_update 2000) checklist0) =
     checklist0\<lparr>tasks := [item0\<lparr>completed := True\<rparr>], updated_at := 2000\<rparr>"
  by (simp add: dollar_set_update_dict bad_update_def no_update_def)
    (simp add: bson_def checklist0_def bson_item_def item0_def millis_def)

lemma ex_bad_update:
  "update_checklist 2000 ''c1'' bad_update [checklist0] =
     (Inr (checklist0\<lparr>tasks := [item0\<lparr>completed := True\<rparr>], updated_at := 2000\<rparr>),
      [checklist0\<lparr>tasks := [item0\<lparr>completed := True\<rparr>], updated_at := 2000\<rparr>])"
  by (simp add: update_checklist_cases ex_find ex_bad_update_bson ex_id ex_bson)
    (simp add: checklist0_def)

lemma ex_add:
  "add_checklist_item ''i2'' 2000 ''c1'' ''tasks'' ''Bleed brakes'' [checklist0] =
     (Inr (''Item added successfully'', item2),
      [checklist0\<lparr>tasks := [item0, item2], updated_at := 2000\<rparr>])"
  by (simp add: add_checklist_item_cases [OF ex_tasks_valid ex_find] item2_def)
    (simp add: ex_id ex_bson dollar_set_def push_item_def get_section_def set_section_def,
     simp add: bson_def bson_item_def checklist0_def item0_def millis_def)

lemma ex_toggle:
  "toggle_checklist_item 2000 2000 ''c1'' ''tasks'' ''i1'' [checklist0] =
     (Inr ''Item toggled successfully'',
      [checklist0\<lparr>tasks := [item0\<lparr>completed := True, completed_at := Some 2000\<rparr>],
                  updated_at := 2000\<rparr>])"
  by (simp add: toggle_checklist_item_def ex_tasks_valid get_section_def dollar_set_def
      set_section_def bson_def bson_item_def checklist0_def item0_def millis_def)

lemma ex_photo:
  "add_photo 2000 ''c1'' photo0 [checklist0] =
     (Inr (''Photo added successfully'', photo0),
      [checklist0\<lparr>photos := [photo0], updated_at := 2000\<rparr>])"
  by (simp add: add_photo_cases [OF ex_find])
    (simp add: ex_id ex_bson dollar_set_def push_photo_def,
     simp add: bson_def bson_item_def bson_photo_def checklist0_def item0_def photo0_def
       millis_def)

lemma ex_create:
  "create_checklist ''c2'' 5000 6000 create0 [checklist0] =
     (Inr checklist2, [checklist0, checklist2])"
  by (simp add: create_checklist_def create0_def insert_one_def Let_def)
    (simp add: bson_def checklist2_def millis_def)

lemma ex_create_microseconds:
  "create_checklist ''c2'' 5001 6000 create0 [checklist0] =
     (Inr (checklist2\<lparr>created_at := 5001\<rparr>), [checklist0, checklist2])"
  by (simp add: create_checklist_def create0_def insert_one_def Let_def)
    (simp add: bson_def checklist2_def millis_def)

lemma ex_create_same_id:
  "create_checklist ''c1'' 5000 6000 create0 [checklist0] =
     (Inr (checklist2\<lparr>id_checklist := ''c1''\<rparr>),
      [checklist0, checklist2\<lparr>id_checklist := ''c1''\<rparr>])"
  by (simp add: create_checklist_def create0_def insert_one_def Let_def)
    (simp add: bson_def checklist2_def millis_def)

lemma ex_toggle_done:
  "toggle_checklist_item 2000 2000 ''c1'' ''tasks'' ''i1'' [checklist1] =
     (Inr ''Item toggled successfully'',
      [checklist1\<lparr>tasks := [item0], updated_at := 2000\<rparr>])"
  by (simp add: toggle_checklist_item_def ex_tasks_valid get_section_def dollar_set_def
      set_section_def bson_def bson_item_def checklist1_def checklist0_def done0_def item0_def
      millis_def)

lemma ex_toggle_back:
  "toggle_checklist_item 3000 4000 ''c1'' ''tasks'' ''i1''
       [checklist1\<lparr>tasks := [item0], updated_at := 2000\<rparr>] =
     (Inr ''Item toggled successfully'',
      [checklist1\<lparr>tasks := [done0\<lparr>completed_at := Some 3000\<rparr>], updated_at := 4000\<rparr>])"
  by (simp add: toggle_checklist_item_def ex_tasks_valid get_section_def dollar_set_def
      set_section_def bson_def bson_item_def checklist1_def checklist0_def done0_def item0_def
      millis_def)

section \<open>Properties of the handlers\<close>

text \<open>
  Claim C1 as stated fails: \<^verbatim>\<open>update_checklist\<close> stores the items of a
  request as they are. On a consistent collection, the update whose task is
  completed with no completion time returns, and the stored task is
  completed with a null \<^verbatim>\<open>completed_at\<close>.
\<close>

theorem completion_invariant_counterexample:
  "db_ok [checklist0] \<and>
   update_checklist 2000 ''c1'' bad_update [checklist0] =
     (Inr (checklist0\<lparr>tasks := [item0\<lparr>completed := True\<rparr>], updated_at := 2000\<rparr>),
      [checklist0\<lparr>tasks := [item0\<lparr>completed := True\<rparr>], updated_at := 2000\<rparr>]) \<and>
   completed (item0\<lparr>completed := True\<rparr>) \<and>
   completed_at (item0\<lparr>completed := True\<rparr>) = None \<and>
   \<not> db_ok [checklist0\<lparr>tasks := [item0\<lparr>completed := True\<rparr>], updated_at := 2000\<rparr>]"
  using ex_db_ok ex_bad_update
  by (simp add: db_ok_def checklist_ok_def item_ok_def item0_def)

text \<open>
  Claim C1, as amended. When every stored item is consistent
  (\<^verbatim>\<open>completed_at\<close> set exactly when \<^verbatim>\<open>completed\<close>), it is so again after
  \<^verbatim>\<open>create_checklist\<close>, \<^verbatim>\<open>add_checklist_item\<close>, \<^verbatim>\<open>toggle_checklist_item\<close>
  and \<^verbatim>\<open>add_photo\<close>, whether they return or raise, and after
  \<^verbatim>\<open>update_checklist\<close> when the items of the lists in the request are
  consistent.
\<close>

theorem completion_invariant:
  assumes "db_ok db"
  shows "db_ok (snd (create_checklist uuid4 now1 now2 checklist_data db)) \<and>
    db_ok (snd (add_checklist_item uuid4 now c section item_text db)) \<and>
    db_ok (snd (toggle_checklist_item now1 now2 c section item_id db)) \<and>
    db_ok (snd (add_photo now c photo_data db)) \<and>
    (update_ok u \<longrightarrow> db_ok (snd (update_checklist now c u db)))"
  using assms by (simp add: create_ok add_item_ok toggle_ok add_photo_ok update_ok_db)

theorem completion_invariant_witness:
  "db_ok [checklist0] \<and> update_ok retitle \<and>
   db_ok (snd (create_checklist ''c2'' 5000 6000 create0 [checklist0])) \<and>
   db_ok (snd (add_checklist_item ''c2'' 2000 ''c1'' ''tasks'' ''Bleed brakes'' [checklist0])) \<and>
   db_ok (snd (toggle_checklist_item 5000 6000 ''c1'' ''tasks'' ''i1'' [checklist0])) \<and>
   db_ok (snd (add_photo 2000 ''c1'' photo0 [checklist0])) \<and>
   db_ok (snd (update_checklist 2000 ''c1'' retitle [checklist0]))"
proof -
  have u: "update_ok retitle"
    by (simp add: update_ok_def items_ok_def retitle_def no_update_def)
  show ?thesis
    using completion_invariant [OF ex_db_ok, of "''c2''" 5000 6000 create0 2000 "''c1''"
        "''tasks''" "''Bleed brakes''" "''i1''" photo0 retitle]
      ex_db_ok u
    by simp
qed

text \<open>
  Claim C2 as stated fails for an item that is completed at the start: the
  task completed at time 1000, toggled at time 2000 and again at time 3000,
  is completed with \<^verbatim>\<open>completed_at\<close> 3000, not 1000.
\<close>

theorem toggle_twice_counterexample:
  "find_one ''c1'' [checklist1] = Some checklist1 \<and>
   tasks checklist1 = [done0] \<and> id_item done0 = ''i1'' \<and>
   completed done0 \<and> completed_at done0 = Some 1000 \<and>
   toggle_checklist_item 2000 2000 ''c1'' ''tasks'' ''i1'' [checklist1] =
     (Inr ''Item toggled successfully'',
      [checklist1\<lparr>tasks := [item0], updated_at := 2000\<rparr>]) \<and>
   toggle_checklist_item 3000 4000 ''c1'' ''tasks'' ''i1''
       [checklist1\<lparr>tasks := [item0], updated_at := 2000\<rparr>] =
     (Inr ''Item toggled successfully'',
      [checklist1\<lparr>tasks := [done0\<lparr>completed_at := Some 3000\<rparr>], updated_at := 4000\<rparr>]) \<and>
   completed_at (done0\<lparr>completed_at := Some 3000\<rparr>) \<noteq> completed_at done0"
  using ex_find1 ex_toggle_done ex_toggle_back
  by (simp add: checklist1_def done0_def item0_def)

text \<open>
  Claim C2, as amended. For an existing checklist, one of the four section
  names and an item id present in the section, two toggles in succession both
  return. Afterwards the first item with that id has its \<^verbatim>\<open>completed\<close> flag
  back; its \<^verbatim>\<open>completed_at\<close> is null when it was not completed at the start,
  and is the clock reading of the second toggle, as the store holds it, when
  it was. When the item started not completed with a null \<^verbatim>\<open>completed_at\<close>,
  the whole list is as it was at the start.
\<close>

theorem toggle_twice:
  assumes "section \<in> set valid_sections" and "find_one cid db = Some d"
    and "find (\<lambda>i. id_item i = item_id) (get_section section d) = Some item"
  shows "\<exists>db1 db2 d2.
    toggle_checklist_item now1 now2 cid section item_id db =
      (Inr ''Item toggled successfully'', db1) \<and>
    toggle_checklist_item now3 now4 cid section item_id db1 =
      (Inr ''Item toggled successfully'', db2) \<and>
    find_one cid db2 = Some d2 \<and>
    find (\<lambda>i. id_item i = item_id) (get_section section d2) =
      Some (item\<lparr>completed_at := (if completed item then Some (millis now3) else None)\<rparr>) \<and>
    (\<not> completed item \<and> completed_at item = None \<longrightarrow>
       get_section section d2 = get_section section d)"
proof -
  let ?xs = "get_section section d"
  let ?f = "dollar_set [Items section (fst (toggle_first item_id now1 ?xs)), Updated_at now2]"
  let ?d1 = "bson (?f d)"
  let ?db1 = "fst (update_one cid ?f db)"
  let ?ys = "fst (toggle_first item_id (millis now1) ?xs)"
  let ?g = "dollar_set [Items section (fst (toggle_first item_id now3 ?ys)), Updated_at now4]"
  let ?d2 = "bson (?g ?d1)"
  let ?db2 = "fst (update_one cid ?g ?db1)"
  let ?zs = "fst (toggle_first item_id (millis now3) ?ys)"
  have xs: "map bson_item ?xs = ?xs"
    using assms(2) by (rule stored_fields)
  have in1: "item_id \<in> id_item ` set ?xs"
    using assms(3) by (rule find_found)
  note s1 = toggle_checklist_item_cases [OF assms(1,2) in1, of now1 now2]
  have sec1: "get_section section ?d1 = ?ys"
    using assms(1) toggle_first_bson [of item_id now1 ?xs]
    by (simp add: get_section_bson dollar_set_def get_section_updated_at get_set_section_same xs)
  have f1: "find (\<lambda>i. id_item i = item_id) ?ys =
      Some (item\<lparr>completed := \<not> completed item,
                 completed_at := (if \<not> completed item then Some (millis now1) else None)\<rparr>)"
    using assms(3) by (rule find_toggle_first)
  have in2: "item_id \<in> id_item ` set (get_section section ?d1)"
    unfolding sec1 using f1 by (rule find_found)
  have d1: "find_one cid ?db1 = Some ?d1"
    using s1 by simp
  have s2: "toggle_checklist_item now3 now4 cid section item_id ?db1 =
      (Inr ''Item toggled successfully'', ?db2) \<and>
    find_one cid ?db2 = Some ?d2"
    using toggle_checklist_item_cases [OF assms(1) d1 in2, of now3 now4] unfolding sec1 .
  have ys: "map bson_item ?ys = ?ys"
    using stored_fields(1) [OF d1, of "section"] unfolding sec1 .
  have sec2: "get_section section ?d2 = ?zs"
    using assms(1) toggle_first_bson [of item_id now3 ?ys]
    by (simp add: get_section_bson dollar_set_def get_section_updated_at get_set_section_same ys)
  have f2: "find (\<lambda>i. id_item i = item_id) ?zs =
      Some (item\<lparr>completed_at := (if completed item then Some (millis now3) else None)\<rparr>)"
    using find_toggle_first [OF f1, of "millis now3"] by simp
  have restore: "\<not> completed item \<and> completed_at item = None \<longrightarrow> ?zs = ?xs"
    using toggle_first_twice [OF assms(3)] by blast
  show ?thesis
  proof (intro exI conjI)
    show "toggle_checklist_item now1 now2 cid section item_id db =
        (Inr ''Item toggled successfully'', ?db1)"
      using s1 by simp
    show "toggle_checklist_item now3 now4 cid section item_id ?db1 =
        (Inr ''Item toggled successfully'', ?db2)"
      using s2 by simp
    show "find_one cid ?db2 = Some ?d2"
      using s2 by simp
    show "find (\<lambda>i. id_item i = item_id) (get_section section ?d2) =
        Some (item\<lparr>completed_at := (if completed item then Some (millis now3) else None)\<rparr>)"
      unfolding sec2 by (rule f2)
    show "\<not> completed item \<and> completed_at item = None \<longrightarrow>
        get_section section ?d2 = get_section section d"
      unfolding sec2 by (rule restore)
  qed
qed

theorem toggle_twice_witness:
  "''tasks'' \<in> set valid_sections \<and> find_one ''c1'' [checklist0] = Some checklist0 \<and>
   find (\<lambda>i. id_item i = ''i1'') (get_section ''tasks'' checklist0) = Some item0 \<and>
   \<not> completed item0 \<and> completed_at item0 = None \<and>
   (\<exists>db1 db2 d2.
      toggle_checklist_item 2000 2000 ''c1'' ''tasks'' ''i1'' [checklist0] =
        (Inr ''Item toggled successfully'', db1) \<and>
      toggle_checklist_item 3000 4000 ''c1'' ''tasks'' ''i1'' db1 =
        (Inr ''Item toggled successfully'', db2) \<and>
      find_one ''c1'' db2 = Some d2 \<and>
      find (\<lambda>i. id_item i = ''i1'') (get_section ''tasks'' d2) = Some item0 \<and>
      get_section ''tasks'' d2 = get_section ''tasks'' checklist0)"
proof -
  have f: "find (\<lambda>i. id_item i = ''i1'') (get_section ''tasks'' checklist0) = Some item0"
    by (simp add: get_section_def checklist0_def item0_def)
  have n: "\<not> completed item0 \<and> completed_at item0 = None"
    by (simp add: item0_def)
  have e: "item0\<lparr>completed_at := None\<rparr> = item0"
    by (simp add: item0_def)
  from toggle_twice [OF ex_tasks_valid ex_find f, of 2000 2000 3000 4000]
  obtain db1 db2 d2 where
    a: "toggle_checklist_item 2000 2000 ''c1'' ''tasks'' ''i1'' [checklist0] =
        (Inr ''Item toggled successfully'', db1)"
    and b: "toggle_checklist_item 3000 4000 ''c1'' ''tasks'' ''i1'' db1 =
        (Inr ''Item toggled successfully'', db2)"
    and c: "find_one ''c1'' db2 = Some d2"
    and d: "find (\<lambda>i. id_item i = ''i1'') (get_section ''tasks'' d2) =
      Some (item0\<lparr>completed_at := (if completed item0 then Some (millis 3000) else None)\<rparr>)"
    and r: "\<not> completed item0 \<and> completed_at item0 = None \<longrightarrow>
       get_section ''tasks'' d2 = get_section ''tasks'' checklist0"
    by (elim exE conjE)
  from d n e have d': "find (\<lambda>i. id_item i = ''i1'') (get_section ''tasks'' d2) = Some item0"
    by simp
  from r n have r': "get_section ''tasks'' d2 = get_section ''tasks'' checklist0"
    by (elim impE)
  show ?thesis
    using ex_tasks_valid ex_find f n [THEN conjunct1] n [THEN conjunct2] a b c d' r'
    by (intro conjI exI)
qed

text \<open>
  Claim C3. For an existing checklist and any update request, the checklist
  stored after \<^verbatim>\<open>update_checklist\<close> has, in each of the eight fields, the
  value of the request when that is not \<^verbatim>\<open>None\<close>, as a whole and as the
  store holds it, and the value stored before when it is \<^verbatim>\<open>None\<close> (left out
  or null). The handler returns that checklist, unless the write changed
  nothing and it raises "Failed to update checklist".
\<close>

theorem update_replaces_fields:
  assumes "find_one cid db = Some d"
  shows "\<exists>d'. find_one cid (snd (update_checklist now cid u db)) = Some d' \<and>
    title d' = (case title_upd u of None \<Rightarrow> title d | Some v \<Rightarrow> v) \<and>
    vehicle_info d' = (case vehicle_info_upd u of None \<Rightarrow> vehicle_info d | Some v \<Rightarrow> v) \<and>
    engine_info d' = (case engine_info_upd u of None \<Rightarrow> engine_info d | Some v \<Rightarrow> v) \<and>
    tasks d' = (case tasks_upd u of None \<Rightarrow> tasks d | Some v \<Rightarrow> map bson_item v) \<and>
    parts_to_install d' =
      (case parts_to_install_upd u of None \<Rightarrow> parts_to_install d
       | Some v \<Rightarrow> map bson_item v) \<and>
    maintenance d' =
      (case maintenance_upd u of None \<Rightarrow> maintenance d | Some v \<Rightarrow> map bson_item v) \<and>
    research_items d' =
      (case research_items_upd u of None \<Rightarrow> research_items d
       | Some v \<Rightarrow> map bson_item v) \<and>
    photos d' = (case photos_upd u of None \<Rightarrow> photos d | Some v \<Rightarrow> map bson_photo v) \<and>
    (fst (update_checklist now cid u db) = Inr d' \<or>
     fst (update_checklist now cid u db) = Inl failed_to_update)"
proof -
  let ?f = "dollar_set (update_dict u now)"
  have i: "id_checklist (?f d) = cid"
    using assms by (simp add: dollar_set_frame find_one_id)
  have s: "find_one cid (snd (update_checklist now cid u db)) = Some (bson (?f d))"
  proof (cases "bson (?f d) = d")
    case True
    then show ?thesis using assms by (simp add: update_checklist_cases)
  next
    case False
    then show ?thesis
      using assms find_one_update_one_same [of cid db d ?f] i
      by (simp add: update_checklist_cases)
  qed
  have r: "fst (update_checklist now cid u db) = Inr (bson (?f d)) \<or>
      fst (update_checklist now cid u db) = Inl failed_to_update"
    using assms by (simp add: update_checklist_cases)
  note st = stored_fields [OF assms]
  have 1: "title (bson (?f d)) = (case title_upd u of None \<Rightarrow> title d | Some v \<Rightarrow> v)"
    by (simp add: dollar_set_update_dict)
  have 2: "vehicle_info (bson (?f d)) =
      (case vehicle_info_upd u of None \<Rightarrow> vehicle_info d | Some v \<Rightarrow> v)"
    by (simp add: dollar_set_update_dict)
  have 3: "engine_info (bson (?f d)) =
      (case engine_info_upd u of None \<Rightarrow> engine_info d | Some v \<Rightarrow> v)"
    by (simp add: dollar_set_update_dict)
  have 4: "tasks (bson (?f d)) =
      (case tasks_upd u of None \<Rightarrow> tasks d | Some v \<Rightarrow> map bson_item v)"
    by (simp add: dollar_set_update_dict st split: option.split)
  have 5: "parts_to_install (bson (?f d)) =
      (case parts_to_install_upd u of None \<Rightarrow> parts_to_install d
       | Some v \<Rightarrow> map bson_item v)"
    by (simp add: dollar_set_update_dict st split: option.split)
  have 6: "maintenance (bson (?f d)) =
      (case maintenance_upd u of None \<Rightarrow> maintenance d | Some v \<Rightarrow> map bson_item v)"
    by (simp add: dollar_set_update_dict st split: option.split)
  have 7: "research_items (bson (?f d)) =
      (case research_items_upd u of None \<Rightarrow> research_items d
       | Some v \<Rightarrow> map bson_item v)"
    by (simp add: dollar_set_update_dict st split: option.split)
  have 8: "photos (bson (?f d)) =
      (case photos_upd u of None \<Rightarrow> photos d | Some v \<Rightarrow> map bson_photo v)"
    by (simp add: dollar_set_update_dict st split: option.split)
  from s r 1 2 3 4 5 6 7 8 show ?thesis by blast
qed

theorem update_replaces_fields_witness:
  "find_one ''c1'' [checklist0] = Some checklist0 \<and>
   (\<exists>d'. find_one ''c1'' (snd (update_checklist 2000 ''c1'' retitle [checklist0])) = Some d' \<and>
      title d' = ''Fastback'' \<and> tasks d' = [] \<and>
      vehicle_info d' = vehicle_info checklist0 \<and> photos d' = photos checklist0 \<and>
      fst (update_checklist 2000 ''c1'' retitle [checklist0]) = Inr d')"
proof -
  from update_replaces_fields [OF ex_find, of 2000 retitle]
  obtain d' where
    s: "find_one ''c1'' (snd (update_checklist 2000 ''c1'' retitle [checklist0])) = Some d'"
    and t: "title d' = (case title_upd retitle of None \<Rightarrow> title checklist0 | Some v \<Rightarrow> v)"
    and k: "tasks d' =
      (case tasks_upd retitle of None \<Rightarrow> tasks checklist0 | Some v \<Rightarrow> map bson_item v)"
    and v: "vehicle_info d' =
      (case vehicle_info_upd retitle of None \<Rightarrow> vehicle_info checklist0 | Some v \<Rightarrow> v)"
    and p: "photos d' =
      (case photos_upd retitle of None \<Rightarrow> photos checklist0 | Some v \<Rightarrow> map bson_photo v)"
    by (elim exE conjE)
  have b: "bson (checklist0\<lparr>title := ''Fastback'', tasks := [], updated_at := 2000\<rparr>) =
      checklist0\<lparr>title := ''Fastback'', tasks := [], updated_at := 2000\<rparr>"
    by (simp add: bson_def checklist0_def millis_def)
  from s have e: "d' = checklist0\<lparr>title := ''Fastback'', tasks := [], updated_at := 2000\<rparr>"
    by (simp add: ex_retitle ex_id b)
  have r: "fst (update_checklist 2000 ''c1'' retitle [checklist0]) = Inr d'"
    by (simp add: ex_retitle e)
  from t have t': "title d' = ''Fastback''" by (simp add: retitle_def no_update_def)
  from k have k': "tasks d' = []" by (simp add: retitle_def no_update_def)
  from v have v': "vehicle_info d' = vehicle_info checklist0"
    by (simp add: retitle_def no_update_def)
  from p have p': "photos d' = photos checklist0" by (simp add: retitle_def no_update_def)
  show ?thesis
    using ex_find s t' k' v' p' r by (intro conjI exI)
qed

text \<open>
  Claim C4 as stated fails: the handlers write the clock reading without
  comparing it with the stored value. On the checklist last updated at time
  1000, an update at a clock reading of 0 returns and leaves \<^verbatim>\<open>updated_at\<close>
  at 0.
\<close>

theorem updated_at_refreshed_counterexample:
  "find_one ''c1'' [checklist0] = Some checklist0 \<and> updated_at checklist0 = 1000 \<and>
   update_checklist 0 ''c1'' no_update [checklist0] =
     (Inr (checklist0\<lparr>updated_at := 0\<rparr>), [checklist0\<lparr>updated_at := 0\<rparr>]) \<and>
   find_one ''c1'' [checklist0\<lparr>updated_at := 0\<rparr>] = Some (checklist0\<lparr>updated_at := 0\<rparr>) \<and>
   updated_at (checklist0\<lparr>updated_at := 0\<rparr>) < updated_at checklist0"
proof -
  have b: "bson (checklist0\<lparr>updated_at := 0\<rparr>) = checklist0\<lparr>updated_at := 0\<rparr>"
    using ex_no_update [of 0] by (simp add: millis_def bson_def checklist0_def bson_item_def item0_def)
  show ?thesis
    using ex_find ex_update_clock_back b
    by (simp add: ex_id) (simp add: checklist0_def)
qed

text \<open>
  Claim C4, as amended. Each of \<^verbatim>\<open>update_checklist\<close>,
  \<^verbatim>\<open>add_checklist_item\<close>, \<^verbatim>\<open>toggle_checklist_item\<close> and \<^verbatim>\<open>add_photo\<close>, when
  it returns, leaves the checklist with the clock reading of the call, as the
  store holds it, as \<^verbatim>\<open>updated_at\<close>, whatever else changed. Over any
  sequence of requests that does not delete the checklist, when the clock
  readings do not decrease from the stored \<^verbatim>\<open>updated_at\<close> on, the checklist
  is there at every point of the sequence and its \<^verbatim>\<open>updated_at\<close> at a later
  point is not earlier than at an earlier point or at the start.
\<close>

theorem updated_at_refreshed:
  "(update_checklist now cid u db = (Inr r, db1) \<longrightarrow>
      find_one cid db1 = Some r \<and> updated_at r = millis now) \<and>
   (add_checklist_item uuid4 now cid section item_text db = (Inr a, db2) \<longrightarrow>
      (\<exists>d'. find_one cid db2 = Some d' \<and> updated_at d' = millis now)) \<and>
   (toggle_checklist_item now1 now cid section item_id db = (Inr m, db3) \<longrightarrow>
      (\<exists>d'. find_one cid db3 = Some d' \<and> updated_at d' = millis now)) \<and>
   (add_photo now cid photo_data db = (Inr p, db4) \<longrightarrow>
      (\<exists>d'. find_one cid db4 = Some d' \<and> updated_at d' = millis now)) \<and>
   (find_one cid db = Some d \<and> Delete_checklist cid \<notin> set (rs1 @ rs2) \<and>
    sorted (updated_at d # concat (map written (rs1 @ rs2))) \<longrightarrow>
      (\<exists>d1 d2. find_one cid (run rs1 db) = Some d1 \<and>
         find_one cid (run (rs1 @ rs2) db) = Some d2 \<and>
         updated_at d \<le> updated_at d1 \<and> updated_at d1 \<le> updated_at d2))"
  using update_checklist_refresh [of now cid u db r db1]
    add_checklist_item_refresh [of uuid4 now cid "section" item_text db a db2]
    toggle_checklist_item_refresh [of now1 now cid "section" item_id db m db3]
    add_photo_refresh [of now cid photo_data db p db4]
    run_monotone [of cid db d rs1 rs2]
  by blast

theorem updated_at_refreshed_witness:
  "update_checklist 2000 ''c1'' no_update [checklist0] =
     (Inr (checklist0\<lparr>updated_at := 2000\<rparr>), [checklist0\<lparr>updated_at := 2000\<rparr>]) \<and>
   add_checklist_item ''i2'' 2000 ''c1'' ''tasks'' ''Bleed brakes'' [checklist0] =
     (Inr (''Item added successfully'', item2),
      [checklist0\<lparr>tasks := [item0, item2], updated_at := 2000\<rparr>]) \<and>
   toggle_checklist_item 2000 2000 ''c1'' ''tasks'' ''i1'' [checklist0] =
     (Inr ''Item toggled successfully'',
      [checklist0\<lparr>tasks := [item0\<lparr>completed := True, completed_at := Some 2000\<rparr>],
                  updated_at := 2000\<rparr>]) \<and>
   add_photo 2000 ''c1'' photo0 [checklist0] =
     (Inr (''Photo added successfully'', photo0),
      [checklist0\<lparr>photos := [photo0], updated_at := 2000\<rparr>]) \<and>
   find_one ''c1'' [checklist0] = Some checklist0 \<and>
   Delete_checklist ''c1'' \<notin> set (requests1 @ requests2) \<and>
   sorted (updated_at checklist0 # concat (map written (requests1 @ requests2))) \<and>
   find_one ''c1'' [checklist0\<lparr>updated_at := 2000\<rparr>] = Some (checklist0\<lparr>updated_at := 2000\<rparr>) \<and>
   updated_at (checklist0\<lparr>updated_at := 2000\<rparr>) = millis 2000 \<and>
   (\<exists>d'. find_one ''c1'' [checklist0\<lparr>tasks := [item0, item2], updated_at := 2000\<rparr>] = Some d' \<and>
         updated_at d' = millis 2000) \<and>
   (\<exists>d'. find_one ''c1''
           [checklist0\<lparr>tasks := [item0\<lparr>completed := True, completed_at := Some 2000\<rparr>],
                       updated_at := 2000\<rparr>] = Some d' \<and>
         updated_at d' = millis 2000) \<and>
   (\<exists>d'. find_one ''c1'' [checklist0\<lparr>photos := [photo0], updated_at := 2000\<rparr>] = Some d' \<and>
         updated_at d' = millis 2000) \<and>
   (\<exists>d1 d2. find_one ''c1'' (run requests1 [checklist0]) = Some d1 \<and>
      find_one ''c1'' (run (requests1 @ requests2) [checklist0]) = Some d2 \<and>
      updated_at checklist0 \<le> updated_at d1 \<and> updated_at d1 \<le> updated_at d2)"
proof -
  have n: "Delete_checklist ''c1'' \<notin> set (requests1 @ requests2)"
    by (simp add: requests1_def requests2_def)
  have s: "sorted (updated_at checklist0 # concat (map written (requests1 @ requests2)))"
    by (simp add: requests1_def requests2_def checklist0_def)
  note t = updated_at_refreshed [of 2000 "''c1''" no_update "[checklist0]"
      "checklist0\<lparr>updated_at := 2000\<rparr>" "[checklist0\<lparr>updated_at := 2000\<rparr>]"
      "''i2''" "''tasks''" "''Bleed brakes''" "(''Item added successfully'', item2)"
      "[checklist0\<lparr>tasks := [item0, item2], updated_at := 2000\<rparr>]"
      2000 "''i1''" "''Item toggled successfully''"
      "[checklist0\<lparr>tasks := [item0\<lparr>completed := True, completed_at := Some 2000\<rparr>],
                  updated_at := 2000\<rparr>]"
      photo0 "(''Photo added successfully'', photo0)"
      "[checklist0\<lparr>photos := [photo0], updated_at := 2000\<rparr>]"
      checklist0 requests1 requests2]
  have 1: "find_one ''c1'' [checklist0\<lparr>updated_at := 2000\<rparr>] = Some (checklist0\<lparr>updated_at := 2000\<rparr>) \<and>
      updated_at (checklist0\<lparr>updated_at := 2000\<rparr>) = millis 2000"
    by (rule t [THEN conjunct1, THEN mp, OF ex_update])
  have 2: "\<exists>d'. find_one ''c1'' [checklist0\<lparr>tasks := [item0, item2], updated_at := 2000\<rparr>] = Some d' \<and>
         updated_at d' = millis 2000"
    by (rule t [THEN conjunct2, THEN conjunct1, THEN mp, OF ex_add])
  have 3: "\<exists>d'. find_one ''c1''
           [checklist0\<lparr>tasks := [item0\<lparr>completed := True, completed_at := Some 2000\<rparr>],
                       updated_at := 2000\<rparr>] = Some d' \<and>
         updated_at d' = millis 2000"
    by (rule t [THEN conjunct2, THEN conjunct2, THEN conjunct1, THEN mp, OF ex_toggle])
  have 4: "\<exists>d'. find_one ''c1'' [checklist0\<lparr>photos := [photo0], updated_at := 2000\<rparr>] = Some d' \<and>
         updated_at d' = millis 2000"
    by (rule t [THEN conjunct2, THEN conjunct2, THEN conjunct2, THEN conjunct1, THEN mp,
          OF ex_photo])
  have 5: "\<exists>d1 d2. find_one ''c1'' (run requests1 [checklist0]) = Some d1 \<and>
      find_one ''c1'' (run (requests1 @ requests2) [checklist0]) = Some d2 \<and>
      updated_at checklist0 \<le> updated_at d1 \<and> updated_at d1 \<le> updated_at d2"
    by (rule t [THEN conjunct2, THEN conjunct2, THEN conjunct2, THEN conjunct2, THEN mp,
          OF conjI [OF ex_find conjI [OF n s]]])
  show ?thesis
    using ex_update ex_add ex_toggle ex_photo ex_find n s 1 [THEN conjunct1]
      1 [THEN conjunct2] 2 3 4 5
    by (intro conjI)
qed

text \<open>
  Claim C5. For an existing checklist and one of the four section names,
  \<^verbatim>\<open>add_checklist_item\<close> returns the new item: its id is the identifier
  drawn, its text the given one, \<^verbatim>\<open>completed\<close> false and \<^verbatim>\<open>completed_at\<close>
  null. The stored checklist has the item at the end of the named list, the
  clock reading, as the store holds it, as \<^verbatim>\<open>updated_at\<close>, and every other
  list and field as before; every other checklist is as before.
\<close>

theorem add_item_appends:
  assumes "section \<in> set valid_sections" and "find_one cid db = Some d"
  shows "\<exists>db' d'.
    add_checklist_item uuid4 now cid section item_text db =
      (Inr (''Item added successfully'',
            \<lparr>id_item = uuid4, text_item = item_text, completed = False, completed_at = None\<rparr>),
       db') \<and>
    find_one cid db' = Some d' \<and>
    get_section section d' = get_section section d @
      [\<lparr>id_item = uuid4, text_item = item_text, completed = False, completed_at = None\<rparr>] \<and>
    (\<forall>s. s \<noteq> section \<longrightarrow> get_section s d' = get_section s d) \<and>
    updated_at d' = millis now \<and>
    id_checklist d' = id_checklist d \<and> title d' = title d \<and>
    vehicle_info d' = vehicle_info d \<and> engine_info d' = engine_info d \<and>
    photos d' = photos d \<and> created_at d' = created_at d \<and>
    is_template d' = is_template d \<and>
    (\<forall>c. c \<noteq> cid \<longrightarrow> find_one c db' = find_one c db)"
proof -
  let ?item = "\<lparr>id_item = uuid4, text_item = item_text, completed = False, completed_at = None\<rparr>"
  let ?f = "\<lambda>d. dollar_set [Updated_at now] (push_item section ?item d)"
  let ?db' = "fst (update_one cid ?f db)"
  note st = stored_fields [OF assms(2)]
  have idf: "id_checklist (?f x) = id_checklist x" for x
    by (simp add: dollar_set_def push_item_def set_section_frame)
  have 1: "find_one cid ?db' = Some (bson (?f d))"
    using find_one_update_one_same [of cid db d ?f] assms(2) idf [of d]
    by (simp add: find_one_id)
  have 2: "get_section section (bson (?f d)) = get_section section d @ [?item]"
    using assms(1)
    by (simp add: get_section_bson dollar_set_def push_item_def get_section_updated_at
        get_set_section_same st bson_item_def)
  have 3: "\<forall>s. s \<noteq> section \<longrightarrow> get_section s (bson (?f d)) = get_section s d"
    by (simp add: get_section_bson dollar_set_def push_item_def get_section_updated_at
        get_set_section_other st)
  have 4: "updated_at (bson (?f d)) = millis now \<and> id_checklist (bson (?f d)) = id_checklist d \<and>
    title (bson (?f d)) = title d \<and> vehicle_info (bson (?f d)) = vehicle_info d \<and>
    engine_info (bson (?f d)) = engine_info d \<and> photos (bson (?f d)) = photos d \<and>
    created_at (bson (?f d)) = created_at d \<and> is_template (bson (?f d)) = is_template d"
    by (simp add: dollar_set_def push_item_def set_section_frame st)
  have 5: "\<forall>c. c \<noteq> cid \<longrightarrow> find_one c ?db' = find_one c db"
    using find_one_update_one_other [of ?f _ cid db] idf by blast
  show ?thesis
    using add_checklist_item_cases [OF assms, of uuid4 now item_text] 1 2 3 4 5
    by blast
qed

theorem add_item_appends_witness:
  "''tasks'' \<in> set valid_sections \<and> find_one ''c1'' [checklist0] = Some checklist0 \<and>
   (\<exists>db' d'.
      add_checklist_item ''i2'' 2000 ''c1'' ''tasks'' ''Bleed brakes'' [checklist0] =
        (Inr (''Item added successfully'',
              \<lparr>id_item = ''i2'', text_item = ''Bleed brakes'', completed = False,
                 completed_at = None\<rparr>), db') \<and>
      find_one ''c1'' db' = Some d' \<and>
      get_section ''tasks'' d' = get_section ''tasks'' checklist0 @
        [\<lparr>id_item = ''i2'', text_item = ''Bleed brakes'', completed = False,
           completed_at = None\<rparr>] \<and>
      get_section ''maintenance'' d' = get_section ''maintenance'' checklist0 \<and>
      updated_at d' = 2000 \<and> photos d' = photos checklist0)"
proof -
  from add_item_appends [OF ex_tasks_valid ex_find, of "''i2''" 2000 "''Bleed brakes''"]
  obtain db' d' where
    a: "add_checklist_item ''i2'' 2000 ''c1'' ''tasks'' ''Bleed brakes'' [checklist0] =
        (Inr (''Item added successfully'',
              \<lparr>id_item = ''i2'', text_item = ''Bleed brakes'', completed = False,
                 completed_at = None\<rparr>), db')"
    and f: "find_one ''c1'' db' = Some d'"
    and g: "get_section ''tasks'' d' = get_section ''tasks'' checklist0 @
        [\<lparr>id_item = ''i2'', text_item = ''Bleed brakes'', completed = False,
           completed_at = None\<rparr>]"
    and o: "\<forall>s. s \<noteq> ''tasks'' \<longrightarrow> get_section s d' = get_section s checklist0"
    and u: "updated_at d' = millis 2000" and p: "photos d' = photos checklist0"
    by (elim exE conjE)
  have "''maintenance'' \<noteq> ''tasks''" by simp
  with o have m: "get_section ''maintenance'' d' = get_section ''maintenance'' checklist0"
    by (elim allE impE)
  from u have u': "updated_at d' = 2000" by (simp add: millis_def)
  show ?thesis
    using ex_tasks_valid ex_find a f g m u' p by (intro conjI exI)
qed

text \<open>
  Claim C6. \<^verbatim>\<open>update_checklist\<close> raises "Checklist not found" (404) exactly
  when the collection has no checklist with the id. For an id that exists it
  raises "Failed to update checklist" (400) exactly when the store's write
  reports a \<^verbatim>\<open>modified_count\<close> of 0. In every other case it returns the
  document that \<^verbatim>\<open>find_one\<close> reads from the collection after the write.
\<close>

theorem update_outcome:
  "(fst (update_checklist now cid u db) = Inl checklist_not_found
      \<longleftrightarrow> find_one cid db = None) \<and>
   (find_one cid db \<noteq> None \<longrightarrow>
      (fst (update_checklist now cid u db) = Inl failed_to_update
         \<longleftrightarrow> snd (update_one cid (dollar_set (update_dict u now)) db) = 0)) \<and>
   (find_one cid db \<noteq> None \<and>
    snd (update_one cid (dollar_set (update_dict u now)) db) \<noteq> 0 \<longrightarrow>
      (\<exists>r. update_checklist now cid u db =
              (Inr r, fst (update_one cid (dollar_set (update_dict u now)) db)) \<and>
            find_one cid (fst (update_one cid (dollar_set (update_dict u now)) db)) = Some r))"
proof (cases "find_one cid db")
  case None
  then show ?thesis by (simp add: update_checklist_cases)
next
  case (Some d)
  let ?f = "dollar_set (update_dict u now)"
  have n: "snd (update_one cid ?f db) = (if bson (?f d) = d then 0 else 1)"
    using Some by (rule update_one_count)
  have i: "id_checklist (?f d) = cid"
    using Some by (simp add: dollar_set_frame find_one_id)
  have r: "find_one cid (fst (update_one cid ?f db)) = Some (bson (?f d))"
    using find_one_update_one_same [of cid db d ?f] Some i by simp
  show ?thesis using Some n r
    by (simp add: update_checklist_cases exn_distinct)
qed

theorem update_outcome_witness:
  "find_one ''c1'' [checklist0] \<noteq> None \<and>
   snd (update_one ''c1'' (dollar_set (update_dict no_update 2000)) [checklist0]) \<noteq> 0 \<and>
   update_checklist 2000 ''c1'' no_update [checklist0] =
     (Inr (checklist0\<lparr>updated_at := 2000\<rparr>), [checklist0\<lparr>updated_at := 2000\<rparr>]) \<and>
   fst (update_checklist 1000 ''c1'' no_update [checklist0]) = Inl failed_to_update \<and>
   fst (update_checklist 2000 ''c2'' no_update [checklist0]) = Inl checklist_not_found"
proof -
  have f: "find_one ''c1'' [checklist0] \<noteq> None"
    by (simp add: ex_id)
  have m: "snd (update_one ''c1'' (dollar_set (update_dict no_update 2000)) [checklist0]) \<noteq> 0"
    by (simp add: ex_id ex_bson ex_no_update ex_stamp millis_def)
  have z: "snd (update_one ''c1'' (dollar_set (update_dict no_update 1000)) [checklist0]) = 0"
    by (simp add: ex_id ex_bson ex_no_update ex_stamp millis_def)
  have a: "find_one ''c2'' [checklist0] = None"
    by (simp add: ex_id)
  have u: "fst (update_one ''c1'' (dollar_set (update_dict no_update 2000)) [checklist0]) =
             [checklist0\<lparr>updated_at := 2000\<rparr>]"
    by (simp add: ex_id ex_bson ex_no_update ex_stamp millis_def)
  have 1: "\<exists>r. update_checklist 2000 ''c1'' no_update [checklist0] =
      (Inr r, fst (update_one ''c1'' (dollar_set (update_dict no_update 2000)) [checklist0])) \<and>
      find_one ''c1''
        (fst (update_one ''c1'' (dollar_set (update_dict no_update 2000)) [checklist0])) = Some r"
    by (rule update_outcome [of 2000 "''c1''" no_update "[checklist0]",
          THEN conjunct2, THEN conjunct2, THEN mp, OF conjI [OF f m]])
  have 2: "fst (update_checklist 1000 ''c1'' no_update [checklist0]) = Inl failed_to_update"
    using update_outcome [of 1000 "''c1''" no_update "[checklist0]",
          THEN conjunct2, THEN conjunct1, THEN mp, OF f] z by simp
  have 3: "fst (update_checklist 2000 ''c2'' no_update [checklist0]) = Inl checklist_not_found"
    using update_outcome [of 2000 "''c2''" no_update "[checklist0]", THEN conjunct1] a by simp
  show ?thesis
    using f m ex_update 2 3 by (intro conjI)
qed

text \<open>
  Claim C7. For a section name outside the four list names,
  \<^verbatim>\<open>add_checklist_item\<close> and \<^verbatim>\<open>toggle_checklist_item\<close> raise "Invalid
  section" (400) for every checklist id, and the collection afterwards is the
  collection before.
\<close>

theorem invalid_section_rejected:
  assumes "section \<notin> set valid_sections"
  shows "add_checklist_item uuid4 now cid section item_text db = (Inl invalid_section, db) \<and>
    toggle_checklist_item now1 now2 cid section item_id db = (Inl invalid_section, db)"
  using assms by (simp add: add_checklist_item_def toggle_checklist_item_def)

theorem invalid_section_rejected_witness:
  "''bogus'' \<notin> set valid_sections \<and>
   add_checklist_item ''i2'' 2000 ''c1'' ''bogus'' ''x'' [checklist0] =
     (Inl invalid_section, [checklist0]) \<and>
   toggle_checklist_item 2000 2000 ''c1'' ''photos'' ''i1'' [checklist0] =
     (Inl invalid_section, [checklist0])"
proof -
  have b: "''bogus'' \<notin> set valid_sections" by (simp add: valid_sections_def)
  have p: "''photos'' \<notin> set valid_sections" by (simp add: valid_sections_def)
  show ?thesis
    using b invalid_section_rejected [OF b, of "''i2''" 2000 "''c1''" "''x''" "[checklist0]"]
      invalid_section_rejected [OF p, of _ _ "''c1''" _ "[checklist0]" 2000 2000 "''i1''"]
    by simp
qed

text \<open>
  Claim C8 as stated fails: \<^verbatim>\<open>create_checklist\<close> returns the object it
  built, with the clock readings as taken, and the store holds them cut to
  milliseconds. A checklist created at a reading of 5001 reads back with
  \<^verbatim>\<open>created_at\<close> 5000. And when the identifier drawn is that of a stored
  checklist, \<^verbatim>\<open>get_checklist\<close> returns the older one.
\<close>

theorem get_after_create_counterexample:
  "create_checklist ''c2'' 5001 6000 create0 [checklist0] =
     (Inr (checklist2\<lparr>created_at := 5001\<rparr>), [checklist0, checklist2]) \<and>
   get_checklist ''c2'' [checklist0, checklist2] = (Inr checklist2, [checklist0, checklist2]) \<and>
   created_at (checklist2\<lparr>created_at := 5001\<rparr>) = 5001 \<and> created_at checklist2 = 5000 \<and>
   create_checklist ''c1'' 5000 6000 create0 [checklist0] =
     (Inr (checklist2\<lparr>id_checklist := ''c1''\<rparr>),
      [checklist0, checklist2\<lparr>id_checklist := ''c1''\<rparr>]) \<and>
   get_checklist ''c1'' [checklist0, checklist2\<lparr>id_checklist := ''c1''\<rparr>] =
     (Inr checklist0, [checklist0, checklist2\<lparr>id_checklist := ''c1''\<rparr>]) \<and>
   created_at (checklist2\<lparr>id_checklist := ''c1''\<rparr>) = 5000 \<and> created_at checklist0 = 1000"
proof -
  have g: "get_checklist ''c2'' [checklist0, checklist2] =
      (Inr checklist2, [checklist0, checklist2])"
    by (simp add: get_checklist_def ex_id ex_bson2) (simp add: checklist2_def)
  have h: "get_checklist ''c1'' [checklist0, checklist2\<lparr>id_checklist := ''c1''\<rparr>] =
      (Inr checklist0, [checklist0, checklist2\<lparr>id_checklist := ''c1''\<rparr>])"
    by (simp add: get_checklist_def ex_id ex_bson)
  show ?thesis
    using ex_create_microseconds ex_create_same_id g h
    by (simp add: checklist2_def checklist0_def)
qed

text \<open>
  Claim C8, as amended. When \<^verbatim>\<open>create_checklist\<close> returns a checklist,
  \<^verbatim>\<open>get_checklist\<close> with its id returns: when no stored checklist had the
  identifier drawn, the created checklist with \<^verbatim>\<open>created_at\<close> and
  \<^verbatim>\<open>updated_at\<close> cut to milliseconds and every other field equal; otherwise
  the older checklist with that identifier. In the first case the two are
  equal in every field exactly when both clock readings are whole
  milliseconds. The created checklist has the identifier drawn, the title,
  vehicle and engine records and template flag of the request, the four item
  lists and the photos empty, and the two clock readings.
\<close>

theorem get_after_create:
  assumes "create_checklist uuid4 now1 now2 checklist_data db = (Inr c, db')"
  shows "get_checklist (id_checklist c) db' =
      (Inr (case find_one uuid4 db of
              None \<Rightarrow> c\<lparr>created_at := millis now1, updated_at := millis now2\<rparr>
            | Some older \<Rightarrow> older), db') \<and>
    (find_one uuid4 db = None \<longrightarrow>
       (get_checklist (id_checklist c) db' = (Inr c, db') \<longleftrightarrow>
          millis now1 = now1 \<and> millis now2 = now2)) \<and>
    id_checklist c = uuid4 \<and> title c = title_new checklist_data \<and>
    vehicle_info c = vehicle_info_new checklist_data \<and>
    engine_info c = engine_info_new checklist_data \<and>
    tasks c = [] \<and> parts_to_install c = [] \<and> maintenance c = [] \<and>
    research_items c = [] \<and> photos c = [] \<and>
    created_at c = now1 \<and> updated_at c = now2 \<and>
    is_template_new checklist_data = Some (is_template c)"
proof -
  from assms obtain t where t: "is_template_new checklist_data = Some t"
    and c: "c = \<lparr>id_checklist = uuid4, title = title_new checklist_data,
        vehicle_info = vehicle_info_new checklist_data,
        engine_info = engine_info_new checklist_data,
        tasks = [], parts_to_install = [], maintenance = [], research_items = [],
        photos = [], created_at = now1, updated_at = now2, is_template = t\<rparr>"
    and db': "db' = db @ [bson c]"
    by (auto simp: create_checklist_def insert_one_def Let_def split: option.splits)
  have b: "bson c = c\<lparr>created_at := millis now1, updated_at := millis now2\<rparr>"
    by (simp add: c bson_def)
  have b2: "bson (c\<lparr>created_at := millis now1, updated_at := millis now2\<rparr>) =
      c\<lparr>created_at := millis now1, updated_at := millis now2\<rparr>"
    using bson_idem [of c] unfolding b .
  have i: "id_checklist c = uuid4"
    by (simp add: c)
  have g: "get_checklist (id_checklist c) db' =
      (Inr (case find_one uuid4 db of
              None \<Rightarrow> c\<lparr>created_at := millis now1, updated_at := millis now2\<rparr>
            | Some older \<Rightarrow> older), db')"
    unfolding i db' using b b2
    by (simp add: get_checklist_def find_one_append i split: option.splits)
  have e: "c\<lparr>created_at := millis now1, updated_at := millis now2\<rparr> = c \<longleftrightarrow>
      millis now1 = now1 \<and> millis now2 = now2"
    by (auto simp: c)
  have f: "find_one uuid4 db = None \<longrightarrow>
       (get_checklist (id_checklist c) db' = (Inr c, db') \<longleftrightarrow>
          millis now1 = now1 \<and> millis now2 = now2)"
    using g e by simp
  show ?thesis
    using g f t by (simp add: c)
qed

theorem get_after_create_witness:
  "create_checklist ''c2'' 5001 6000 create0 [checklist0] =
     (Inr (checklist2\<lparr>created_at := 5001\<rparr>), [checklist0, checklist2]) \<and>
   find_one ''c2'' [checklist0] = None \<and>
   get_checklist ''c2'' [checklist0, checklist2] = (Inr checklist2, [checklist0, checklist2]) \<and>
   create_checklist ''c2'' 5000 6000 create0 [checklist0] =
     (Inr checklist2, [checklist0, checklist2]) \<and>
   millis 5000 = 5000 \<and> millis 6000 = 6000"
proof -
  have h: "find_one ''c2'' [checklist0] = None" by (simp add: ex_id)
  have i: "id_checklist (checklist2\<lparr>created_at := 5001\<rparr>) = ''c2''"
    by (simp add: checklist2_def)
  have e: "checklist2\<lparr>created_at := millis 5001, updated_at := millis 6000\<rparr> = checklist2"
    by (simp add: checklist2_def millis_def)
  have 1: "get_checklist ''c2'' [checklist0, checklist2] =
      (Inr checklist2, [checklist0, checklist2])"
    using get_after_create [OF ex_create_microseconds, THEN conjunct1] h i e by simp
  have i2: "id_checklist checklist2 = ''c2''"
    by (simp add: checklist2_def)
  have 2: "millis 5000 = 5000 \<and> millis 6000 = 6000"
    using get_after_create [OF ex_create, THEN conjunct2, THEN conjunct1, THEN mp, OF h] 1 i2
    by simp
  show ?thesis
    using ex_create_microseconds h 1 ex_create 2 [THEN conjunct1] 2 [THEN conjunct2]
    by (intro conjI)
qed

text \<open>
  Claim C9. A successful update leaves \<^verbatim>\<open>id\<close>, \<^verbatim>\<open>created_at\<close> and
  \<^verbatim>\<open>is_template\<close> of the checklist as they were, whatever the request holds:
  no entry of the \<^verbatim>\<open>$set\<close> dictionary names them.
\<close>

theorem update_frame:
  assumes "find_one cid db = Some d"
    and "update_checklist now cid u db = (Inr r, db')"
  shows "find_one cid db' = Some r \<and> id_checklist r = id_checklist d \<and>
    created_at r = created_at d \<and> is_template r = is_template d"
proof -
  let ?f = "dollar_set (update_dict u now)"
  from assms have r: "r = bson (?f d)" and db': "db' = fst (update_one cid ?f db)"
    by (auto simp: update_checklist_cases split: if_splits)
  have i: "id_checklist (?f d) = cid"
    using assms(1) by (simp add: dollar_set_frame find_one_id)
  have "find_one cid db' = Some r"
    using find_one_update_one_same [of cid db d ?f] assms(1) i r db' by simp
  then show ?thesis
    unfolding r by (simp add: dollar_set_frame stored_fields [OF assms(1)])
qed

theorem update_frame_witness:
  "find_one ''c1'' [checklist0] = Some checklist0 \<and>
   update_checklist 2000 ''c1'' retitle [checklist0] =
     (Inr (checklist0\<lparr>title := ''Fastback'', tasks := [], updated_at := 2000\<rparr>),
      [checklist0\<lparr>title := ''Fastback'', tasks := [], updated_at := 2000\<rparr>]) \<and>
   id_checklist (checklist0\<lparr>title := ''Fastback'', tasks := [], updated_at := 2000\<rparr>) = ''c1'' \<and>
   created_at (checklist0\<lparr>title := ''Fastback'', tasks := [], updated_at := 2000\<rparr>) = 1000 \<and>
   is_template (checklist0\<lparr>title := ''Fastback'', tasks := [], updated_at := 2000\<rparr>) = False"
  using update_frame [OF ex_find ex_retitle] ex_find ex_retitle
  by (simp add: checklist0_def)

text \<open>
  Claim C10 as stated fails: the store compares dates in milliseconds. On the
  checklist last updated at time 1000, the update with no field set at a
  clock reading of 1500, later by half a millisecond, writes nothing new and
  raises "Failed to update checklist".
\<close>

theorem update_succeeds_when_clock_advanced_counterexample:
  "find_one ''c1'' [checklist0] = Some checklist0 \<and> updated_at checklist0 = 1000 \<and>
   updated_at checklist0 < 1500 \<and>
   update_checklist 1500 ''c1'' no_update [checklist0] = (Inl failed_to_update, [checklist0])"
  using ex_find ex_update_same_millisecond
  by (simp add: ex_id) (simp add: checklist0_def)

text \<open>
  Claim C10, as amended. When the checklist exists and the clock reading of
  the update, cut to milliseconds, is later than the stored \<^verbatim>\<open>updated_at\<close>,
  the update does not raise "Failed to update checklist": it returns a
  document whose \<^verbatim>\<open>updated_at\<close> is that reading in milliseconds. In
  particular the update with no field set returns the stored checklist with
  only \<^verbatim>\<open>updated_at\<close> changed. The update with no field set raises
  "Failed to update checklist" exactly when the reading in milliseconds is
  the stored \<^verbatim>\<open>updated_at\<close>.
\<close>

theorem update_succeeds_when_clock_advanced:
  assumes "find_one cid db = Some d"
  shows "(updated_at d < millis now \<longrightarrow>
      fst (update_checklist now cid u db) \<noteq> Inl failed_to_update \<and>
      (\<exists>r db'. update_checklist now cid u db = (Inr r, db') \<and> updated_at r = millis now) \<and>
      fst (update_checklist now cid no_update db) = Inr (d\<lparr>updated_at := millis now\<rparr>)) \<and>
    (fst (update_checklist now cid no_update db) = Inl failed_to_update \<longleftrightarrow>
       millis now = updated_at d)"
proof -
  have ne: "bson (dollar_set (update_dict v now) d) \<noteq> d" if "updated_at d < millis now" for v
  proof
    assume "bson (dollar_set (update_dict v now) d) = d"
    then have "updated_at (bson (dollar_set (update_dict v now) d)) = updated_at d" by simp
    then show False using that by (simp add: dollar_set_update_dict)
  qed
  have "bson (d\<lparr>updated_at := now\<rparr>) = (bson d)\<lparr>updated_at := millis now\<rparr>"
    by (simp add: bson_def)
  then have e: "bson (dollar_set (update_dict no_update now) d) = d\<lparr>updated_at := millis now\<rparr>"
    using find_one_bson [OF assms]
    by (simp add: dollar_set_update_dict no_update_def)
  have u: "updated_at (bson (dollar_set (update_dict u now) d)) = millis now"
    by (simp add: dollar_set_update_dict)
  have s: "d\<lparr>updated_at := millis now\<rparr> = d \<longleftrightarrow> millis now = updated_at d"
  proof
    assume "d\<lparr>updated_at := millis now\<rparr> = d"
    then have "updated_at (d\<lparr>updated_at := millis now\<rparr>) = updated_at d" by simp
    then show "millis now = updated_at d" by simp
  next
    assume "millis now = updated_at d"
    then show "d\<lparr>updated_at := millis now\<rparr> = d" by simp
  qed
  have 1: "updated_at d < millis now \<longrightarrow>
      fst (update_checklist now cid u db) \<noteq> Inl failed_to_update \<and>
      (\<exists>r db'. update_checklist now cid u db = (Inr r, db') \<and> updated_at r = millis now) \<and>
      fst (update_checklist now cid no_update db) = Inr (d\<lparr>updated_at := millis now\<rparr>)"
    using assms ne [of u] ne [of no_update] e u
    by (simp add: update_checklist_cases)
  have 2: "fst (update_checklist now cid no_update db) = Inl failed_to_update \<longleftrightarrow>
       millis now = updated_at d"
    using assms e s by (simp add: update_checklist_cases)
  from 1 2 show ?thesis by (rule conjI)
qed

theorem update_succeeds_when_clock_advanced_witness:
  "find_one ''c1'' [checklist0] = Some checklist0 \<and> updated_at checklist0 < millis 2500 \<and>
   fst (update_checklist 2500 ''c1'' retitle [checklist0]) \<noteq> Inl failed_to_update \<and>
   fst (update_checklist 2500 ''c1'' no_update [checklist0]) =
     Inr (checklist0\<lparr>updated_at := 2000\<rparr>)"
proof -
  have h: "updated_at checklist0 < millis 2500" by (simp add: checklist0_def millis_def)
  have m: "millis 2500 = 2000" by (simp add: millis_def)
  note t = update_succeeds_when_clock_advanced [OF ex_find, of 2500 retitle,
      THEN conjunct1, THEN mp, OF h]
  show ?thesis
    using ex_find h t [THEN conjunct1] t [THEN conjunct2, THEN conjunct2, unfolded m]
    by (intro conjI)
qed

end
